theory Spec2Isabelle
  imports Complex_Main "HOL-Library.Word"
begin

section \<open>JavaScript values used by the hero component\<close>

text \<open>
  The development follows \<^verbatim>\<open>src/components/TypographyMeshHero.jsx\<close> (the current variant
  of the component, with six interaction modes) and the word sanitiser of the application
  shell. JavaScript numbers are modelled by real numbers; the three non-finite doubles are
  explicit where the code tests for them (\<^verbatim>\<open>Number.isFinite\<close>). A \<^verbatim>\<open>Float32Array\<close> is a
  list of reals, without the rounding of a store. No statement proved below depends on
  rounding: each rests on which values are read and written, on comparisons and on
  clamping.

  A JavaScript string is modelled as the list of its code points. After the first
  \<^verbatim>\<open>replace\<close> of the normalisers only ASCII code points are left, so lengths in code
  units and in code points agree from there on.
\<close>

type_synonym jsstring = "nat list"

datatype jsnum = Finite real | NaN | PosInfinity | NegInfinity

datatype jsval =
    JUndefined
  | JNull
  | JBoolean bool
  | JNumber jsnum
  | JString jsstring
  | JArray "jsval list"
  | JObject "(string \<times> jsval) list"

datatype error = TypeError

section \<open>Word normalisation\<close>

definition GEIST :: jsstring where
  "GEIST = [71, 69, 73, 83, 84]"

definition asciiUpper :: "nat \<Rightarrow> nat" where
  "asciiUpper c = (if 97 \<le> c \<and> c \<le> 122 then c - 32 else c)"

text \<open>
  \<^verbatim>\<open>String.prototype.toUpperCase\<close> maps every code point to one or more code points.
  Its ASCII part is written out; the Unicode case table for the other code points is not
  part of the repository and is the parameter \<open>ext\<close>.
\<close>

definition toUpperCase :: "(nat \<Rightarrow> jsstring) \<Rightarrow> jsstring \<Rightarrow> jsstring" where
  "toUpperCase ext s = concat (map (\<lambda>c. if c < 128 then [asciiUpper c] else ext c) s)"

definition identityCase :: "nat \<Rightarrow> jsstring" where
  "identityCase c = [c]"

text \<open>The character class \<^verbatim>\<open>[A-Z0-9 ]\<close>.\<close>

definition allowedChar :: "nat \<Rightarrow> bool" where
  "allowedChar c = ((65 \<le> c \<and> c \<le> 90) \<or> (48 \<le> c \<and> c \<le> 57) \<or> c = 32)"

text \<open>The class \<^verbatim>\<open>\s\<close>: the white space and line terminator code points of ECMAScript.\<close>

definition isWhiteSpace :: "nat \<Rightarrow> bool" where
  "isWhiteSpace c =
     (c = 9 \<or> c = 10 \<or> c = 11 \<or> c = 12 \<or> c = 13 \<or> c = 32 \<or> c = 160 \<or> c = 5760
      \<or> (8192 \<le> c \<and> c \<le> 8202) \<or> c = 8232 \<or> c = 8233 \<or> c = 8239 \<or> c = 8287
      \<or> c = 12288 \<or> c = 65279)"

text \<open>\<^verbatim>\<open>.replace(/[^A-Z0-9 ]/g, "")\<close>\<close>

definition removeDisallowed :: "jsstring \<Rightarrow> jsstring" where
  "removeDisallowed s = filter allowedChar s"

text \<open>\<^verbatim>\<open>.replace(/\s+/g, " ")\<close>: every maximal run of white space becomes one space.\<close>

function collapseWhitespace :: "jsstring \<Rightarrow> jsstring" where
  "collapseWhitespace [] = []"
| "collapseWhitespace (c # cs) =
     (if isWhiteSpace c then 32 # collapseWhitespace (dropWhile isWhiteSpace cs)
      else c # collapseWhitespace cs)"
  by pat_completeness auto
termination
  by (relation "measure length") (auto simp: less_Suc_eq_le length_dropWhile_le)

definition trimStart :: "jsstring \<Rightarrow> jsstring" where
  "trimStart s = dropWhile isWhiteSpace s"

definition trim :: "jsstring \<Rightarrow> jsstring" where
  "trim s = rev (dropWhile isWhiteSpace (rev (dropWhile isWhiteSpace s)))"

text \<open>No two neighbouring characters are both white space.\<close>

fun noAdjacentWhitespace :: "jsstring \<Rightarrow> bool" where
  "noAdjacentWhitespace (a # b # cs) =
     (\<not> (isWhiteSpace a \<and> isWhiteSpace b) \<and> noAdjacentWhitespace (b # cs))"
| "noAdjacentWhitespace cs = True"

text \<open>
  \<^verbatim>\<open>normalizeWord(value)\<close> of the hero component. The empty string is falsy, so
  \<^verbatim>\<open>value || "GEIST"\<close> replaces it by the default word.
\<close>

definition normalizeWord :: "(nat \<Rightarrow> jsstring) \<Rightarrow> jsstring \<Rightarrow> jsstring" where
  "normalizeWord ext v =
     (let next = trim (collapseWhitespace (removeDisallowed
                   (toUpperCase ext (if v = [] then GEIST else v))))
      in if length next > 0 then next else GEIST)"

text \<open>
  \<^verbatim>\<open>sanitizeWord(value)\<close> of the application shell, the caller that feeds the word
  property of the hero component: it is the place where the length is cut to 18.
\<close>

definition sanitizeWord :: "(nat \<Rightarrow> jsstring) \<Rightarrow> jsstring \<Rightarrow> jsstring" where
  "sanitizeWord ext v =
     take 18 (trimStart (collapseWhitespace (removeDisallowed (toUpperCase ext v))))"

section \<open>Mode strengths\<close>

definition INTERACTION_MODE_IDS :: "string list" where
  "INTERACTION_MODE_IDS = [''fluid'', ''nebula'', ''tide'', ''vortex'', ''ripple'', ''magnet'']"

text \<open>
  \<^verbatim>\<open>Number(v)\<close>. The conversion of a string is the parameter \<open>strToNum\<close> (the numeric
  string grammar of the language). An array converts through its \<^verbatim>\<open>join(",")\<close>: the empty
  array gives the empty string, which is 0; an array of one element gives the string of that
  element, the empty string for \<^verbatim>\<open>null\<close> and \<^verbatim>\<open>undefined\<close>, and the string of a number
  converts back to that number; a string with a comma is not numeric. Objects are plain data
  objects, whose string \<^verbatim>\<open>[object Object]\<close> is not numeric.
\<close>

fun toNumber :: "(jsstring \<Rightarrow> jsnum) \<Rightarrow> jsval \<Rightarrow> jsnum" where
  "toNumber strToNum JUndefined = NaN"
| "toNumber strToNum JNull = Finite 0"
| "toNumber strToNum (JBoolean b) = Finite (if b then 1 else 0)"
| "toNumber strToNum (JNumber n) = n"
| "toNumber strToNum (JString s) = strToNum s"
| "toNumber strToNum (JArray []) = Finite 0"
| "toNumber strToNum (JArray [JUndefined]) = Finite 0"
| "toNumber strToNum (JArray [JNull]) = Finite 0"
| "toNumber strToNum (JArray [JBoolean b]) = NaN"
| "toNumber strToNum (JArray [JNumber n]) = n"
| "toNumber strToNum (JArray [JString s]) = strToNum s"
| "toNumber strToNum (JArray [JArray ys]) = toNumber strToNum (JArray ys)"
| "toNumber strToNum (JArray [JObject ps]) = NaN"
| "toNumber strToNum (JArray (x # y # zs)) = NaN"
| "toNumber strToNum (JObject ps) = NaN"

text \<open>\<^verbatim>\<open>source[key]\<close>: a missing property reads as \<^verbatim>\<open>undefined\<close>.\<close>

definition getProp :: "(string \<times> jsval) list \<Rightarrow> string \<Rightarrow> jsval" where
  "getProp source k = (case map_of source k of None \<Rightarrow> JUndefined | Some v \<Rightarrow> v)"

text \<open>
  \<^verbatim>\<open>normalizeModeStrengths\<close> of the hero component. A truthy value of type object is read
  as the source; an array is one, and has no property named by a mode id.
\<close>

definition normalizeModeStrengths ::
  "(jsstring \<Rightarrow> jsnum) \<Rightarrow> jsval \<Rightarrow> (string \<times> real) list" where
  "normalizeModeStrengths strToNum modeStrengths =
     (let source = (case modeStrengths of JObject ps \<Rightarrow> ps | _ \<Rightarrow> [])
      in map (\<lambda>modeId.
                (modeId,
                 (case toNumber strToNum (getProp source modeId) of
                    Finite raw \<Rightarrow> max 0.4 (min 1.8 raw)
                  | _ \<Rightarrow> 1)))
             INTERACTION_MODE_IDS)"

text \<open>
  The value the caller supplied for a mode: \<^verbatim>\<open>undefined\<close> when the key is missing or
  when the input is not an object at all.
\<close>

definition inputEntry :: "jsval \<Rightarrow> string \<Rightarrow> jsval" where
  "inputEntry modeStrengths modeId =
     (case modeStrengths of JObject ps \<Rightarrow> getProp ps modeId | _ \<Rightarrow> JUndefined)"

definition exampleStrToNum :: "jsstring \<Rightarrow> jsnum" where
  "exampleStrToNum s = NaN"

definition exampleStrengths :: jsval where
  "exampleStrengths =
     JObject [(''fluid'', JNumber (Finite (5/2))), (''tide'', JNumber NaN),
              (''vortex'', JNumber (Finite (1/10))), (''ripple'', JNumber (Finite (6/5))),
              (''magnet'', JNumber PosInfinity)]"

section \<open>The foreground instance field\<close>

text \<open>
  One sampled point of the word: a position in mask space and a glyph index.
\<close>

record target_point =
  target_x :: real
  target_y :: real
  target_glyph :: nat

text \<open>
  \<^verbatim>\<open>foregroundData\<close>: a structure of arrays. The \<^verbatim>\<open>Float32Array\<close>s are lists of reals,
  \<^verbatim>\<open>targetSlot\<close> is a \<^verbatim>\<open>Uint32Array\<close>. A write \<open>xs[i := v]\<close> beyond the end of the
  list changes nothing, as a write beyond the end of a typed array does.
\<close>

record foreground_data =
  count :: nat
  homeX :: "real list"
  homeY :: "real list"
  posX :: "real list"
  posY :: "real list"
  velX :: "real list"
  velY :: "real list"
  seed :: "real list"
  targetX :: "real list"
  targetY :: "real list"
  baseGlyph :: "real list"
  targetGlyph :: "real list"
  targetSlot :: "32 word list"

text \<open>
  \<^verbatim>\<open>buildForegroundMesh\<close> allocates every array with \<^verbatim>\<open>count\<close> elements, and no other
  code replaces an array. The loops run over the indices below \<^verbatim>\<open>count\<close>, so under this
  invariant every read \<open>xs ! i\<close> in them is in range; statements about the values read
  assume it.
\<close>

definition wf_foreground :: "foreground_data \<Rightarrow> bool" where
  "wf_foreground fd =
     (length (homeX fd) = count fd \<and> length (homeY fd) = count fd
      \<and> length (posX fd) = count fd \<and> length (posY fd) = count fd
      \<and> length (velX fd) = count fd \<and> length (velY fd) = count fd
      \<and> length (seed fd) = count fd
      \<and> length (targetX fd) = count fd \<and> length (targetY fd) = count fd
      \<and> length (baseGlyph fd) = count fd \<and> length (targetGlyph fd) = count fd
      \<and> length (targetSlot fd) = count fd)"

record pointer_state =
  pointerTargetX :: real
  pointerTargetY :: real
  pointerX :: real
  pointerY :: real
  pointerStrengthTarget :: real
  pointerStrength :: real
  pointerVelocityTargetX :: real
  pointerVelocityTargetY :: real
  pointerVelocityX :: real
  pointerVelocityY :: real
  pointerEnergy :: real

text \<open>
  The variables captured by the effect closure of the component that the simulation
  reads or writes. \<^verbatim>\<open>elapsedTime\<close> is the field of the clock; \<^verbatim>\<open>foregroundMesh\<close> records
  whether the mesh exists; \<^verbatim>\<open>offsets\<close> and \<^verbatim>\<open>glyphs\<close> are the arrays of the two instanced
  attributes the renderer displays.
\<close>

record sim_state =
  viewportWidth :: real
  viewportHeight :: real
  foregroundStep :: real
  solidFontSize :: real
  currentWord :: jsstring
  retargetMorph :: real
  retargetExcite :: real
  qualityScale :: real
  qualityEvalAt :: real
  fpsEma :: real
  elapsedTime :: real
  foregroundData :: foreground_data
  foregroundTargets :: "target_point list"
  targetCount :: nat
  foregroundMesh :: bool
  offsets :: "real list"
  glyphs :: "real list"
  pointer :: pointer_state
  ambientDriftX :: real
  ambientDriftY :: real
  disposed :: bool

definition hash01 :: "real \<Rightarrow> real" where
  "hash01 sd = (let v = sin (sd * 12.9898) * 43758.5453 in v - of_int \<lfloor>v\<rfloor>)"

text \<open>
  The slot of particle \<open>i\<close> when continuity is preserved: the old slot, as a ratio of the
  old slot space, mapped into the new one, jittered, rounded and clamped.
  \<^verbatim>\<open>foregroundData.targetSlot[i] ?? 0\<close> reads 0 beyond the end of the array.
\<close>

definition preservedSlot :: "nat \<Rightarrow> nat \<Rightarrow> 32 word list \<Rightarrow> nat \<Rightarrow> int" where
  "preservedSlot oldCount nextCount slots i =
     (let oldSlot = (if i < length slots then real (unat (slots ! i)) else 0);
          ratio = (if oldCount \<le> 1 then 0 else oldSlot / (real oldCount - 1));
          jitter = (hash01 (real i * 31.7 + real oldCount * 0.17) - 0.5) * 1.8;
          slot = round (ratio * (real nextCount - 1) + jitter)
      in max 0 (min (int nextCount - 1) slot))"

text \<open>
  The body of the loop of \<^verbatim>\<open>assignForegroundTargets\<close> for particle \<open>i\<close>. Reading
  \<^verbatim>\<open>foregroundTargets[slot]\<close> outside the list gives \<^verbatim>\<open>undefined\<close>, and the property
  access \<^verbatim>\<open>target.x\<close> then throws.
\<close>

definition assignParticle ::
  "bool \<Rightarrow> nat \<Rightarrow> target_point list \<Rightarrow> nat \<Rightarrow> foreground_data \<Rightarrow> error + foreground_data" where
  "assignParticle preserveSlots oldCount targets i fd =
     (let nextCount = length targets in
      if nextCount = 0 then
        Inr (fd\<lparr>targetX := (targetX fd)[i := homeX fd ! i],
                targetY := (targetY fd)[i := homeY fd ! i],
                targetGlyph := (targetGlyph fd)[i := baseGlyph fd ! i],
                targetSlot := (targetSlot fd)[i := 0]\<rparr>)
      else
        let slot = (if preserveSlots \<and> oldCount > 0
                    then preservedSlot oldCount nextCount (targetSlot fd) i
                    else int ((i * 17) mod nextCount))
        in if 0 \<le> slot \<and> slot < int nextCount then
             let target = targets ! nat slot
             in Inr (fd\<lparr>targetX := (targetX fd)[i := target_x target],
                        targetY := (targetY fd)[i := target_y target],
                        targetGlyph := (targetGlyph fd)[i := real (target_glyph target)],
                        targetSlot := (targetSlot fd)[i := word_of_int slot]\<rparr>)
           else Inl TypeError)"

fun assignLoop ::
  "bool \<Rightarrow> nat \<Rightarrow> target_point list \<Rightarrow> nat list \<Rightarrow> foreground_data \<Rightarrow> error + foreground_data" where
  "assignLoop preserveSlots oldCount targets [] fd = Inr fd"
| "assignLoop preserveSlots oldCount targets (i # rest) fd =
     (case assignParticle preserveSlots oldCount targets i fd of
        Inl e \<Rightarrow> Inl e
      | Inr fd' \<Rightarrow> assignLoop preserveSlots oldCount targets rest fd')"

definition assignForegroundTargets :: "bool \<Rightarrow> sim_state \<Rightarrow> error + sim_state" where
  "assignForegroundTargets preserveSlots s =
     (case assignLoop preserveSlots (targetCount s) (foregroundTargets s)
             [0..<count (foregroundData s)] (foregroundData s) of
        Inl e \<Rightarrow> Inl e
      | Inr fd \<Rightarrow> Inr (s\<lparr>foregroundData := fd, targetCount := length (foregroundTargets s)\<rparr>))"

text \<open>
  \<^verbatim>\<open>buildForegroundTargets\<close> rasterises the word on a canvas and samples the mask. The
  canvas is outside the repository: the sampler is a parameter that maps the state and the
  word to the target list and the font size it stores in \<^verbatim>\<open>solidFontSize\<close>.
\<close>

type_synonym sampler = "sim_state \<Rightarrow> jsstring \<Rightarrow> target_point list \<times> real"

definition retargetWord ::
  "(nat \<Rightarrow> jsstring) \<Rightarrow> sampler \<Rightarrow> jsstring \<Rightarrow> sim_state \<Rightarrow> error + sim_state" where
  "retargetWord ext buildForegroundTargets nextWord s =
     (let normalized = normalizeWord ext nextWord in
      if normalized = [] \<or> normalized = currentWord s \<or> count (foregroundData s) = 0
      then Inr s
      else
        let s1 = s\<lparr>currentWord := normalized\<rparr>;
            sampled = buildForegroundTargets s1 (currentWord s1);
            s2 = s1\<lparr>solidFontSize := snd sampled, foregroundTargets := fst sampled\<rparr>
        in case assignForegroundTargets True s2 of
             Inl e \<Rightarrow> Inl e
           | Inr s3 \<Rightarrow> Inr (s3\<lparr>retargetMorph := 0, retargetExcite := 1\<rparr>))"

subsection \<open>A small field used to instantiate the statements\<close>

definition exampleTargets :: "target_point list" where
  "exampleTargets =
     [\<lparr>target_x = -1, target_y = 1/2, target_glyph = 6\<rparr>,
      \<lparr>target_x = 1, target_y = 1/2, target_glyph = 4\<rparr>,
      \<lparr>target_x = 3, target_y = 1/2, target_glyph = 8\<rparr>]"

definition exampleField :: foreground_data where
  "exampleField =
     \<lparr>count = 2, homeX = [-9, 9], homeY = [5, 5], posX = [-8, 10], posY = [4, 6],
      velX = [0, 0], velY = [0, 0], seed = [1, 2], targetX = [0, 0], targetY = [0, 0],
      baseGlyph = [3, 7], targetGlyph = [0, 0], targetSlot = [0, 1]\<rparr>"

definition examplePointer :: pointer_state where
  "examplePointer =
     \<lparr>pointerTargetX = 0, pointerTargetY = 0, pointerX = 0, pointerY = 0,
      pointerStrengthTarget = 0, pointerStrength = 0,
      pointerVelocityTargetX = 0, pointerVelocityTargetY = 0,
      pointerVelocityX = 0, pointerVelocityY = 0, pointerEnergy = 0\<rparr>"

definition exampleState :: sim_state where
  "exampleState =
     \<lparr>viewportWidth = 320, viewportHeight = 240, foregroundStep = 18, solidFontSize = 200,
      currentWord = GEIST, retargetMorph = 1, retargetExcite = 0,
      qualityScale = 1, qualityEvalAt = 2, fpsEma = 60, elapsedTime = 0,
      foregroundData = exampleField, foregroundTargets = [], targetCount = 0,
      foregroundMesh = True, offsets = [-8, 4, 10, 6], glyphs = [3, 7],
      pointer = examplePointer, ambientDriftX = 0, ambientDriftY = 0, disposed = False\<rparr>"

definition exampleSampler :: sampler where
  "exampleSampler s w = (exampleTargets, 200)"

section \<open>The frame loop\<close>

record motion_settings =
  flow :: real
  drag :: real
  camera :: real
  settle :: real

text \<open>
  What one call of \<^verbatim>\<open>animate\<close> reads from outside the closure: the difference
  \<^verbatim>\<open>clock.getDelta()\<close> returns (the clock adds it to \<^verbatim>\<open>elapsedTime\<close>), the device pixel
  ratio, and the current values of the motion, mode and mode-strength references.
\<close>

record frame_input =
  clockDelta :: real
  devicePixelRatio :: real
  motion :: motion_settings
  modeIndex :: nat
  modeStrengths :: "(string \<times> real) list"

definition clamp01 :: "real \<Rightarrow> real" where
  "clamp01 v = max 0 (min 1 v)"

definition smoothstep :: "real \<Rightarrow> real \<Rightarrow> real \<Rightarrow> real" where
  "smoothstep edge0 edge1 v =
     (let u = clamp01 ((v - edge0) / (edge1 - edge0)) in u * u * (3 - 2 * u))"

definition expSmoothing :: "real \<Rightarrow> real \<Rightarrow> real" where
  "expSmoothing rate deltaSeconds = 1 - exp (- rate * deltaSeconds)"

definition hypot :: "real \<Rightarrow> real \<Rightarrow> real" where
  "hypot a b = sqrt (a * a + b * b)"

subsection \<open>Adaptive quality\<close>

text \<open>\<^verbatim>\<open>window.devicePixelRatio || 1\<close>: zero is falsy.\<close>

definition pixelRatioOr1 :: "real \<Rightarrow> real" where
  "pixelRatioOr1 dpr = (if dpr = 0 then 1 else dpr)"

definition initialQualityScale :: "real \<Rightarrow> real" where
  "initialQualityScale dpr = max 0.72 (1 - max 0 (pixelRatioOr1 dpr - 1) * 0.12)"

definition targetQualityFor :: "real \<Rightarrow> real \<Rightarrow> real" where
  "targetQualityFor dpr fps =
     (let q0 = 1 - max 0 (pixelRatioOr1 dpr - 1) * 0.14;
          q1 = (if fps < 58 then q0 - 0.04 else q0);
          q2 = (if fps < 50 then q1 - 0.07 else q1);
          q3 = (if fps < 42 then q2 - 0.09 else q2);
          q4 = (if fps < 34 then q3 - 0.12 else q3);
          q5 = (if fps > 63 then q4 + 0.05 else q4)
      in max 0.62 (min 1.05 q5))"

subsection \<open>Timeline phases\<close>

text \<open>The thresholds are \<^verbatim>\<open>meshEnd = 2.6\<close>, \<^verbatim>\<open>convergeEnd = 7.2\<close>, \<^verbatim>\<open>holdEnd = 9.1\<close>
  and \<^verbatim>\<open>solidEnd = 12\<close>.\<close>

definition motionTimeAt :: "motion_settings \<Rightarrow> real \<Rightarrow> real" where
  "motionTimeAt mo t = t * (0.72 + settle mo * 0.58)"

definition convergeAt :: "real \<Rightarrow> real" where
  "convergeAt motionTime =
     (let baseConverge = smoothstep 2.6 7.2 motionTime;
          rhythmWarp = sin (motionTime * 0.9) * 0.04 * (1 - baseConverge)
      in clamp01 (baseConverge + rhythmWarp))"

definition lockPhaseAt :: "real \<Rightarrow> real" where
  "lockPhaseAt motionTime = smoothstep 9.1 12 motionTime"

definition flowPhaseAt :: "motion_settings \<Rightarrow> real \<Rightarrow> real" where
  "flowPhaseAt mo motionTime =
     0.5 + 0.5 * sin (motionTime * (0.22 * flow mo)
                      + sin (motionTime * (0.07 * flow mo + 0.03)))"

definition solidifyMixAt :: "real \<Rightarrow> real" where
  "solidifyMixAt motionTime = smoothstep (12 - 1.3) (12 + 0.4) motionTime"

subsection \<open>Pointer smoothing\<close>

definition smoothPointer :: "motion_settings \<Rightarrow> real \<Rightarrow> pointer_state \<Rightarrow> pointer_state" where
  "smoothPointer mo delta p =
     (let pointerFollow = expSmoothing (7.2 * drag mo) delta;
          velocityFollow = expSmoothing (12.5 * drag mo) delta;
          strengthFollow = expSmoothing (4.4 * drag mo) delta;
          trailFade = exp (- 6.4 * delta * (0.8 + drag mo * 0.2));
          pX = pointerX p + (pointerTargetX p - pointerX p) * pointerFollow;
          pY = pointerY p + (pointerTargetY p - pointerY p) * pointerFollow;
          vX = pointerVelocityX p + (pointerVelocityTargetX p - pointerVelocityX p) * velocityFollow;
          vY = pointerVelocityY p + (pointerVelocityTargetY p - pointerVelocityY p) * velocityFollow;
          str = pointerStrength p + (pointerStrengthTarget p - pointerStrength p) * strengthFollow;
          pointerSpeed = min 1.5 (hypot vX vY * 15);
          energy = pointerEnergy p
                   + (pointerSpeed - pointerEnergy p) * expSmoothing (3.6 * drag mo) delta
      in p\<lparr>pointerX := pX, pointerY := pY, pointerVelocityX := vX, pointerVelocityY := vY,
            pointerVelocityTargetX := pointerVelocityTargetX p * trailFade,
            pointerVelocityTargetY := pointerVelocityTargetY p * trailFade,
            pointerStrength := str, pointerEnergy := energy\<rparr>)"

text \<open>\<^verbatim>\<open>resetPointerState(immediate)\<close>, called with \<^verbatim>\<open>true\<close> on leave, cancel, blur and
  when the tab is hidden.\<close>

definition resetPointerState :: "bool \<Rightarrow> pointer_state \<Rightarrow> pointer_state" where
  "resetPointerState immediate p =
     (let p1 = p\<lparr>pointerTargetX := 0, pointerTargetY := 0, pointerStrengthTarget := 0,
                  pointerVelocityTargetX := 0, pointerVelocityTargetY := 0\<rparr>
      in if immediate
         then p1\<lparr>pointerX := 0, pointerY := 0, pointerStrength := 0,
                 pointerVelocityX := 0, pointerVelocityY := 0, pointerEnergy := 0\<rparr>
         else p1)"

subsection \<open>Interaction modes\<close>

text \<open>The foreground constants of \<^verbatim>\<open>modeConfig\<close>; mode 0 (fluid) is the last branch of the
  chain, which also takes every index above 5.\<close>

record mode_config =
  pointerWarpRadiusFactor :: real
  pointerWarpBase :: real
  pointerWarpFloat :: real
  pointerFlowBase :: real
  pointerFlowFloat :: real

definition modeConfig :: "nat \<Rightarrow> mode_config" where
  "modeConfig modeIdx =
     (if modeIdx = 1 then
        \<lparr>pointerWarpRadiusFactor = 0.46, pointerWarpBase = 0.58, pointerWarpFloat = 0.3,
         pointerFlowBase = 0.74, pointerFlowFloat = 0.32\<rparr>
      else if modeIdx = 2 then
        \<lparr>pointerWarpRadiusFactor = 0.4, pointerWarpBase = 0.92, pointerWarpFloat = 0.38,
         pointerFlowBase = 0.36, pointerFlowFloat = 0.2\<rparr>
      else if modeIdx = 3 then
        \<lparr>pointerWarpRadiusFactor = 0.54, pointerWarpBase = 1.06, pointerWarpFloat = 0.42,
         pointerFlowBase = 0.84, pointerFlowFloat = 0.34\<rparr>
      else if modeIdx = 4 then
        \<lparr>pointerWarpRadiusFactor = 0.6, pointerWarpBase = 0.7, pointerWarpFloat = 0.26,
         pointerFlowBase = 0.78, pointerFlowFloat = 0.28\<rparr>
      else if modeIdx = 5 then
        \<lparr>pointerWarpRadiusFactor = 0.38, pointerWarpBase = 1.08, pointerWarpFloat = 0.36,
         pointerFlowBase = 0.26, pointerFlowFloat = 0.16\<rparr>
      else
        \<lparr>pointerWarpRadiusFactor = 0.34, pointerWarpBase = 0.66, pointerWarpFloat = 0.32,
         pointerFlowBase = 0.6, pointerFlowFloat = 0.26\<rparr>)"

text \<open>The values a tick derives from the selected mode before the particle loop.\<close>

record mode_params =
  modeIdx :: nat
  pointerWarpRadius :: real
  pointerWarpStrength :: real
  pointerFlowStrength :: real

definition modeParams :: "frame_input \<Rightarrow> sim_state \<Rightarrow> real \<Rightarrow> mode_params" where
  "modeParams inp s floating =
     (let modeId = (if modeIndex inp < length INTERACTION_MODE_IDS
                    then INTERACTION_MODE_IDS ! modeIndex inp else ''fluid'');
          modeStrength = (case map_of (modeStrengths inp) modeId of None \<Rightarrow> 1 | Some v \<Rightarrow> v);
          cfg = modeConfig (modeIndex inp);
          mo = motion inp
      in \<lparr>modeIdx = modeIndex inp,
          pointerWarpRadius =
            min (viewportWidth s) (viewportHeight s) * pointerWarpRadiusFactor cfg,
          pointerWarpStrength =
            foregroundStep s * (pointerWarpBase cfg + pointerWarpFloat cfg * floating)
              * flow mo * modeStrength,
          pointerFlowStrength =
            foregroundStep s * (pointerFlowBase cfg + pointerFlowFloat cfg * floating)
              * flow mo * (0.84 + 0.24 * drag mo) * modeStrength\<rparr>)"

text \<open>The values a tick computes before the particle loop that do not depend on the
  mode: time, motion settings, phases, the advanced retarget scalars (\<open>morph\<close>,
  \<open>excite\<close>), the ambient drift and the smoothed pointer in world coordinates.\<close>

record tick_env =
  tickTime :: real
  tickDelta :: real
  tickMotion :: motion_settings
  converge :: real
  lockPhase :: real
  flowPhase :: real
  morph :: real
  retargetBlend :: real
  excite :: real
  solidifyMix :: real
  floatingMix :: real
  stepSize :: real
  driftX :: real
  driftY :: real
  strength :: real
  pointerWorldX :: real
  pointerWorldY :: real
  pointerWorldVelX :: real
  pointerWorldVelY :: real

record mode_field =
  flowA :: real
  flowB :: real
  pressureScale :: real
  dragScale :: real
  flowScale :: real

text \<open>The branch on \<^verbatim>\<open>modeIndex\<close> inside the pointer block: the flow direction before
  normalisation and the three scales.\<close>

definition modeField ::
  "nat \<Rightarrow> motion_settings \<Rightarrow> real \<Rightarrow> real \<Rightarrow> real \<Rightarrow> real \<Rightarrow> real \<Rightarrow> real \<Rightarrow> real \<Rightarrow> real
   \<Rightarrow> mode_field" where
  "modeField k mo t sd tX tY dx dy dst organicPulse =
     (if k = 1 then
        let orbitA = - dy / dst;
            orbitB = dx / dst;
            cloudA = sin ((tY - tX) * 0.012 + t * 0.61 + sd * 7.1)
                     + cos ((tX + tY) * 0.008 - t * 0.52 + sd * 4.9) * 0.65;
            cloudB = cos ((tY + tX) * 0.011 - t * 0.57 + sd * 6.2)
                     + sin ((tX - tY) * 0.009 + t * 0.49 + sd * 5.3) * 0.65
        in \<lparr>flowA = orbitA * (0.6 + 0.35 * organicPulse) + cloudA * 0.7,
            flowB = orbitB * (0.6 + 0.35 * organicPulse) + cloudB * 0.7,
            pressureScale = 0.1,
            dragScale = (0.14 + 0.09 * organicPulse) * drag mo,
            flowScale = (0.58 + 0.34 * organicPulse) * flow mo\<rparr>
      else if k = 2 then
        let tideA = sin (tY * 0.011 + t * 0.92 + sd * 3.8) + cos ((tX + tY) * 0.006 + t * 0.34);
            tideB = sin (tX * 0.01 - t * 0.77 + sd * 3.1) + cos ((tX - tY) * 0.005 - t * 0.28)
        in \<lparr>flowA = tideA, flowB = tideB, pressureScale = 0.2,
            dragScale = (0.08 + 0.05 * organicPulse) * drag mo,
            flowScale = (0.32 + 0.2 * organicPulse) * flow mo\<rparr>
      else if k = 3 then
        let orbitA = - dy / dst;
            orbitB = dx / dst;
            spiral = sin (dst * 0.03 - t * 1.2 + sd * 7.4);
            curlA = cos ((tX + tY) * 0.012 + t * 0.72 + sd * 4.1) * 0.62;
            curlB = sin ((tY - tX) * 0.013 - t * 0.67 + sd * 3.6) * 0.62
        in \<lparr>flowA = orbitA * (0.9 + 0.3 * organicPulse) + (dx / dst) * spiral * 0.35 + curlA,
            flowB = orbitB * (0.9 + 0.3 * organicPulse) + (dy / dst) * spiral * 0.35 + curlB,
            pressureScale = 0.26,
            dragScale = (0.09 + 0.05 * organicPulse) * drag mo,
            flowScale = (0.74 + 0.34 * organicPulse) * flow mo\<rparr>
      else if k = 4 then
        let wave = sin (dst * 0.044 - t * 1.52 + sd * 5.2);
            radialA = (dx / dst) * wave;
            radialB = (dy / dst) * wave;
            crossA = (- dy / dst) * (0.34 + 0.2 * organicPulse);
            crossB = (dx / dst) * (0.34 + 0.2 * organicPulse)
        in \<lparr>flowA = radialA + crossA, flowB = radialB + crossB, pressureScale = 0.12,
            dragScale = (0.11 + 0.05 * organicPulse) * drag mo,
            flowScale = (0.62 + 0.24 * organicPulse) * flow mo\<rparr>
      else if k = 5 then
        let pullA = - dx / dst;
            pullB = - dy / dst;
            latticeA = sin (tY * 0.021 + t * 0.86 + sd * 6.6) * 0.52;
            latticeB = cos (tX * 0.022 - t * 0.82 + sd * 5.7) * 0.52
        in \<lparr>flowA = pullA * (0.92 + 0.26 * organicPulse) + latticeA,
            flowB = pullB * (0.92 + 0.26 * organicPulse) + latticeB,
            pressureScale = - 0.16,
            dragScale = (0.14 + 0.05 * organicPulse) * drag mo,
            flowScale = (0.28 + 0.14 * organicPulse) * flow mo\<rparr>
      else
        \<lparr>flowA = sin (tY * 0.016 + t * 0.58 + sd * 6.7)
                  + cos ((tX + tY) * 0.01 - t * 0.43 + sd * 2.9) * 0.5,
         flowB = cos (tX * 0.015 - t * 0.52 + sd * 5.3)
                  + sin ((tX - tY) * 0.009 + t * 0.39 + sd * 3.7) * 0.5,
         pressureScale = 0.16,
         dragScale = (0.1 + 0.08 * organicPulse) * drag mo,
         flowScale = (0.44 + 0.28 * organicPulse) * flow mo\<rparr>)"

text \<open>
  The three contributions the pointer block adds to the adjusted target of a particle
  with seed \<open>sd\<close> at \<open>(tX, tY)\<close>: the flow term, the drag term and the pressure term,
  each with its two coordinates.
\<close>

record pointer_terms =
  flowTermX :: real
  flowTermY :: real
  dragTermX :: real
  dragTermY :: real
  pressureTermX :: real
  pressureTermY :: real

definition pointerTerms :: "tick_env \<Rightarrow> mode_params \<Rightarrow> real \<Rightarrow> real \<Rightarrow> real \<Rightarrow> pointer_terms" where
  "pointerTerms e m sd tX tY =
     (let dx = tX - pointerWorldX e;
          dy = tY - pointerWorldY e;
          dst = hypot dx dy + 0.0001;
          radial = clamp01 (1 - dst / pointerWarpRadius m);
          falloff = radial * radial * (3 - 2 * radial);
          influence = falloff * strength e;
          nxDir = dx / dst;
          nyDir = dy / dst;
          organicPulse = sin (tickTime e * 0.6 + sd * 8.7) * 0.5 + 0.5;
          f = modeField (modeIdx m) (tickMotion e) (tickTime e) sd tX tY dx dy dst organicPulse;
          flowLen = hypot (flowA f) (flowB f) + 0.0001;
          flowX = flowA f / flowLen;
          flowY = flowB f / flowLen;
          pressure = (0.52 - radial) * pointerWarpStrength m * influence * pressureScale f;
          dragv = dragScale f * influence
      in \<lparr>flowTermX = flowX * pointerFlowStrength m * influence * flowScale f,
          flowTermY = flowY * pointerFlowStrength m * influence * flowScale f,
          dragTermX = pointerWorldVelX e * dragv,
          dragTermY = pointerWorldVelY e * dragv,
          pressureTermX = nxDir * pressure,
          pressureTermY = nyDir * pressure\<rparr>)"

text \<open>The block \<^verbatim>\<open>if (pointerStrength > 0.001) { ... }\<close>.\<close>

definition adjustForPointer ::
  "tick_env \<Rightarrow> mode_params \<Rightarrow> real \<Rightarrow> real \<times> real \<Rightarrow> real \<times> real" where
  "adjustForPointer e m sd tgt =
     (if strength e > 0.001 then
        let c = pointerTerms e m sd (fst tgt) (snd tgt)
        in (fst tgt + flowTermX c + (dragTermX c + pressureTermX c),
            snd tgt + flowTermY c + (dragTermY c + pressureTermY c))
      else tgt)"

text \<open>The convergence fraction of particle \<open>i\<close>.\<close>

definition combinedConvergeOf :: "tick_env \<Rightarrow> real \<Rightarrow> real" where
  "combinedConvergeOf e sd =
     (let delay = (sin (sd * 4.13) * 0.5 + 0.5) * 0.34;
          delayedConverge = smoothstep delay 1 (converge e + lockPhase e * 0.08)
      in clamp01 (delayedConverge * (0.58 + 0.42 * retargetBlend e)))"

text \<open>Steps 1 to 3 of the loop body: the target of particle \<open>i\<close> after jitter,
  convergence and ambient motion, before the pointer block.\<close>

definition ambientTarget :: "tick_env \<Rightarrow> foreground_data \<Rightarrow> nat \<Rightarrow> real \<times> real" where
  "ambientTarget e fd i =
     (let sd = seed fd ! i;
          t = tickTime e;
          combinedConverge = combinedConvergeOf e sd;
          preJitter = (1 - combinedConverge) * (0.24 + 0.16 * flowPhase e + excite e * 0.34);
          nx = sin (t * 0.92 + sd) * stepSize e * 0.14 * preJitter;
          ny = cos (t * 0.86 + sd * 1.11) * stepSize e * 0.14 * preJitter;
          baseX = homeX fd ! i + nx;
          baseY = homeY fd ! i + ny;
          tX0 = baseX + (targetX fd ! i - baseX) * combinedConverge;
          tY0 = baseY + (targetY fd ! i - baseY) * combinedConverge;
          lockFloat = (0.32 + 0.68 * lockPhase e) * floatingMix e * (0.84 + excite e * 0.45);
          floatAmp = stepSize e * (0.03 + 0.045 * (sin (sd * 2.1) * 0.5 + 0.5))
                     * flow (tickMotion e);
          ambientA = sin ((baseY + sd * 120) * 0.012 + t * 0.52)
                     + cos ((baseX - baseY) * 0.007 - t * 0.44);
          ambientB = cos ((baseX - sd * 105) * 0.011 - t * 0.49)
                     + sin ((baseX + baseY) * 0.006 + t * 0.39);
          ambientLen = hypot ambientA ambientB + 0.0001;
          tX1 = tX0 + (ambientA / ambientLen) * floatAmp * lockFloat;
          tY1 = tY0 + (ambientB / ambientLen) * floatAmp * lockFloat
      in (tX1 + driftX e * stepSize e * 0.24 * lockFloat,
          tY1 + driftY e * stepSize e * 0.24 * lockFloat))"

text \<open>Steps 5 and 6: spring integration toward the adjusted target and glyph selection,
  with the writes to the two render arrays.\<close>

definition integrateParticle :: "tick_env \<Rightarrow> nat \<Rightarrow> real \<times> real \<Rightarrow> sim_state \<Rightarrow> sim_state" where
  "integrateParticle e i tgt s =
     (let fd = foregroundData s;
          mo = tickMotion e;
          combinedConverge = combinedConvergeOf e (seed fd ! i);
          physicsStep = min 1.8 (tickDelta e * 60);
          stiffness = (0.048 + 0.018 * combinedConverge) * physicsStep * settle mo;
          damping = (max 0.78 (min 0.9 (0.845 - (drag mo - 1) * 0.04))) powr physicsStep;
          vX = (velX fd ! i + (fst tgt - posX fd ! i) * stiffness) * damping;
          vY = (velY fd ! i + (snd tgt - posY fd ! i) * stiffness) * damping;
          pX = posX fd ! i + vX * physicsStep;
          pY = posY fd ! i + vY * physicsStep;
          glyphProgress = smoothstep 0.18 0.92 (min combinedConverge (retargetBlend e));
          switchGate = 0.5 + (sin (seed fd ! i * 23.1) * 0.5 + 0.5) * 0.2
      in s\<lparr>foregroundData := fd\<lparr>velX := (velX fd)[i := vX], velY := (velY fd)[i := vY],
                                  posX := (posX fd)[i := pX], posY := (posY fd)[i := pY]\<rparr>,
            glyphs := (glyphs s)[i := (if glyphProgress > switchGate
                                       then targetGlyph fd ! i else baseGlyph fd ! i)],
            offsets := (offsets s)[i * 2 := pX, i * 2 + 1 := pY]\<rparr>)"

text \<open>One iteration of the particle loop.\<close>

definition stepParticle :: "tick_env \<Rightarrow> mode_params \<Rightarrow> nat \<Rightarrow> sim_state \<Rightarrow> sim_state" where
  "stepParticle e m i s =
     integrateParticle e i
       (adjustForPointer e m (seed (foregroundData s) ! i) (ambientTarget e (foregroundData s) i))
       s"

text \<open>The variable \<^verbatim>\<open>dist\<close> of the pointer block for particle \<open>i\<close>: the distance from the
  pointer, in world coordinates, to the target of the particle after ambient motion, plus
  the guard \<open>0.0001\<close> against a division by zero.\<close>

definition pointerDistance :: "tick_env \<Rightarrow> foreground_data \<Rightarrow> nat \<Rightarrow> real" where
  "pointerDistance e fd i =
     hypot (fst (ambientTarget e fd i) - pointerWorldX e)
           (snd (ambientTarget e fd i) - pointerWorldY e) + 0.0001"

text \<open>The distance from the pointer to where particle \<open>i\<close> is, its current position.\<close>

definition particleDistance :: "tick_env \<Rightarrow> foreground_data \<Rightarrow> nat \<Rightarrow> real" where
  "particleDistance e fd i =
     hypot (posX fd ! i - pointerWorldX e) (posY fd ! i - pointerWorldY e)"

subsection \<open>One frame\<close>

text \<open>
  The part of \<^verbatim>\<open>animate\<close> after the quality controller, for the clamped frame delta and
  the clock time \<open>t\<close>: first the scalars of the tick, then the particle loop. The
  uniforms of the background layers, of the foreground material and of the post-processing
  passes, the camera and the mesh transform are outputs to the renderer that nothing in the
  simulation reads back; they are not part of the state.
\<close>

definition tickEnv :: "motion_settings \<Rightarrow> real \<Rightarrow> real \<Rightarrow> sim_state \<Rightarrow> tick_env" where
  "tickEnv mo delta t s =
     (let motionTime = motionTimeAt mo t;
          solidify = solidifyMixAt motionTime;
          morphNext = min 1 (retargetMorph s + delta * (0.72 + 0.9 * settle mo));
          p = smoothPointer mo delta (pointer s);
          driftFollow = expSmoothing (0.85 * flow mo) delta;
          driftTargetX = sin (t * 0.19 * flow mo + sin (t * 0.07 + 0.8)) * 0.8
                         + cos (t * 0.11 * flow mo + 1.5) * 0.34;
          driftTargetY = cos (t * 0.17 * flow mo + sin (t * 0.05 + 0.3)) * 0.72
                         + sin (t * 0.13 * flow mo + 2.1) * 0.3
      in \<lparr>tickTime = t, tickDelta = delta, tickMotion = mo,
          converge = convergeAt motionTime, lockPhase = lockPhaseAt motionTime,
          flowPhase = flowPhaseAt mo motionTime,
          morph = morphNext,
          retargetBlend = smoothstep 0.02 0.96 morphNext,
          excite = retargetExcite s + (0 - retargetExcite s) * expSmoothing 2.8 delta,
          solidifyMix = solidify,
          floatingMix = 1 - solidify,
          stepSize = foregroundStep s,
          driftX = ambientDriftX s + (driftTargetX - ambientDriftX s) * driftFollow,
          driftY = ambientDriftY s + (driftTargetY - ambientDriftY s) * driftFollow,
          strength = pointerStrength p,
          pointerWorldX = pointerX p * viewportWidth s * 0.5,
          pointerWorldY = - pointerY p * viewportHeight s * 0.5,
          pointerWorldVelX = pointerVelocityX p * viewportWidth s * 0.52,
          pointerWorldVelY = - pointerVelocityY p * viewportHeight s * 0.52\<rparr>)"

definition simulate :: "frame_input \<Rightarrow> real \<Rightarrow> real \<Rightarrow> sim_state \<Rightarrow> sim_state" where
  "simulate inp delta t s =
     (let e = tickEnv (motion inp) delta t s;
          m = modeParams inp s (floatingMix e);
          foregroundAlpha = 0.56 + 0.34 * converge e + 0.1 * solidifyMix e;
          s1 = s\<lparr>retargetMorph := morph e, retargetExcite := excite e,
                 pointer := smoothPointer (motion inp) delta (pointer s),
                 ambientDriftX := driftX e, ambientDriftY := driftY e\<rparr>
      in if foregroundMesh s \<and> foregroundAlpha > 0.001
         then fold (stepParticle e m) [0..<count (foregroundData s)] s1
         else s1)"

text \<open>
  \<^verbatim>\<open>animate\<close>. A disposed loop returns at once. Otherwise the clock advances, the frame
  delta is clamped to 50 ms, the FPS average is updated and, once the evaluation time has
  passed, the quality controller runs; when it steps the quality the frame ends there.
\<close>

definition animate :: "frame_input \<Rightarrow> sim_state \<Rightarrow> sim_state" where
  "animate inp s =
     (if disposed s then s
      else
        let t = elapsedTime s + clockDelta inp;
            delta = min 0.05 (clockDelta inp);
            fps = 1 / max 0.0001 delta;
            ema = fpsEma s + (fps - fpsEma s) * 0.08;
            s1 = s\<lparr>elapsedTime := t, fpsEma := ema\<rparr>
        in if t > qualityEvalAt s then
             let targetQuality = targetQualityFor (devicePixelRatio inp) ema
             in if \<bar>targetQuality - qualityScale s\<bar> > 0.08 then
                  s1\<lparr>qualityScale :=
                        max 0.62 (min 1.05
                          (qualityScale s + sgn (targetQuality - qualityScale s) * 0.08)),
                      qualityEvalAt := t + 3.2\<rparr>
                else simulate inp delta t (s1\<lparr>qualityEvalAt := t + 3.2\<rparr>)
           else simulate inp delta t s1)"

text \<open>A run of the frame loop: the states after each tick.\<close>

fun run :: "frame_input list \<Rightarrow> sim_state \<Rightarrow> sim_state list" where
  "run [] s = []"
| "run (inp # rest) s = animate inp s # run rest (animate inp s)"

text \<open>The pointer strength is 0 after the smoothing of every tick of the run.\<close>

fun pointerIdle :: "frame_input list \<Rightarrow> sim_state \<Rightarrow> bool" where
  "pointerIdle [] s = True"
| "pointerIdle (inp # rest) s =
     (pointerStrength (pointer (animate inp s)) = 0 \<and> pointerIdle rest (animate inp s))"

text \<open>Two frame inputs that differ at most in the selected interaction mode.\<close>

definition sameExceptMode :: "frame_input \<Rightarrow> frame_input \<Rightarrow> bool" where
  "sameExceptMode a b = (a\<lparr>modeIndex := modeIndex b\<rparr> = b)"

text \<open>What is displayed of the foreground particles: positions, velocities and glyphs.\<close>

definition particleView ::
  "sim_state \<Rightarrow> real list \<times> real list \<times> real list \<times> real list \<times> real list" where
  "particleView s =
     (posX (foregroundData s), posY (foregroundData s),
      velX (foregroundData s), velY (foregroundData s), glyphs s)"

definition qualityInBounds :: "sim_state \<Rightarrow> bool" where
  "qualityInBounds s = (0.62 \<le> qualityScale s \<and> qualityScale s \<le> 1.05)"

definition exampleMotion :: motion_settings where
  "exampleMotion = \<lparr>flow = 1, drag = 1, camera = 1, settle = 1\<rparr>"

definition exampleInput :: "nat \<Rightarrow> frame_input" where
  "exampleInput k =
     \<lparr>clockDelta = 0.016, devicePixelRatio = 2, motion = exampleMotion, modeIndex = k,
      modeStrengths = [(''fluid'', 1), (''nebula'', 1), (''tide'', 1), (''vortex'', 1),
                       (''ripple'', 1), (''magnet'', 1)]\<rparr>"

text \<open>A tick late in the timeline, with the word settled and solid, and the pointer
  present at the centre of the viewport; and a field whose targets are far from it.\<close>

definition exampleEnv :: tick_env where
  "exampleEnv =
     \<lparr>tickTime = 15, tickDelta = 0.016, tickMotion = exampleMotion,
      converge = 1, lockPhase = 1, flowPhase = 0.5, morph = 1, retargetBlend = 1, excite = 0,
      solidifyMix = 1, floatingMix = 0, stepSize = 18, driftX = 0.3, driftY = 0.2,
      strength = 1, pointerWorldX = 0, pointerWorldY = 0,
      pointerWorldVelX = 5, pointerWorldVelY = 0\<rparr>"

definition exampleFarState :: sim_state where
  "exampleFarState =
     exampleState\<lparr>foregroundData := exampleField\<lparr>targetX := [300, -300], targetY := [0, 0]\<rparr>\<rparr>"

text \<open>A field whose first particle is far from the pointer while its target is close to it.\<close>

definition exampleNearState :: sim_state where
  "exampleNearState =
     exampleState\<lparr>foregroundData :=
       exampleField\<lparr>posX := [1000, 10], posY := [0, 6], targetX := [10, -300],
                     targetY := [0, 0]\<rparr>\<rparr>"

section \<open>Word normalisation: properties\<close>

lemma ws32: "isWhiteSpace 32"
  by (simp add: isWhiteSpace_def)

lemma allowed32: "allowedChar 32"
  by (simp add: allowedChar_def)

lemma collapse_set: "set (collapseWhitespace s) \<subseteq> insert 32 (set s)"
proof (induction s rule: collapseWhitespace.induct)
  case 1 show ?case by simp
next
  case (2 c cs)
  show ?case
  proof (cases "isWhiteSpace c")
    case True
    with 2 have "set (collapseWhitespace (dropWhile isWhiteSpace cs)) \<subseteq> insert 32 (set (dropWhile isWhiteSpace cs))" by simp
    moreover have "set (dropWhile isWhiteSpace cs) \<subseteq> set cs" by (rule set_dropWhileD[THEN subsetI]) 
    ultimately show ?thesis using True by auto
  next
    case False
    with 2 show ?thesis by auto
  qed
qed

lemma collapse_length: "length (collapseWhitespace s) \<le> length s"
proof (induction s rule: collapseWhitespace.induct)
  case 1 show ?case by simp
next
  case (2 c cs)
  have "length (dropWhile isWhiteSpace cs) \<le> length cs" by (rule length_dropWhile_le)
  with 2 show ?case by (cases "isWhiteSpace c") auto
qed

lemma collapse_hd:
  "collapseWhitespace s \<noteq> [] \<Longrightarrow> isWhiteSpace (hd (collapseWhitespace s)) \<Longrightarrow>
   isWhiteSpace (hd s)"
  by (cases s) (auto simp: ws32 split: if_splits)

lemma noAdj_cons:
  "noAdjacentWhitespace (a # xs)
   = ((xs = [] \<or> \<not> (isWhiteSpace a \<and> isWhiteSpace (hd xs))) \<and> noAdjacentWhitespace xs)"
  by (cases xs) auto

lemma collapse_noAdj: "noAdjacentWhitespace (collapseWhitespace s)"
proof (induction s rule: collapseWhitespace.induct)
  case 1 show ?case by simp
next
  case (2 c cs)
  show ?case
  proof (cases "isWhiteSpace c")
    case True
    let ?d = "dropWhile isWhiteSpace cs"
    have ih: "noAdjacentWhitespace (collapseWhitespace ?d)" using 2 True by simp
    have "collapseWhitespace ?d = [] \<or> \<not> isWhiteSpace (hd (collapseWhitespace ?d))"
    proof (cases "?d = []")
      case True
      then have "collapseWhitespace ?d = []" by (simp only: collapseWhitespace.simps)
      then show ?thesis by blast
    next
      case False
      then have "\<not> isWhiteSpace (hd ?d)" by (rule hd_dropWhile)
      then show ?thesis using collapse_hd by blast
    qed
    then show ?thesis using True ih by (simp add: noAdj_cons)
  next
    case False
    then show ?thesis using 2 by (simp add: noAdj_cons)
  qed
qed

lemma noAdj_drop: "noAdjacentWhitespace xs \<Longrightarrow> noAdjacentWhitespace (drop n xs)"
proof (induction n arbitrary: xs)
  case 0 then show ?case by simp
next
  case (Suc n)
  show ?case
  proof (cases xs)
    case Nil then show ?thesis by simp
  next
    case (Cons a ys)
    with Suc.prems have "noAdjacentWhitespace ys" by (simp add: noAdj_cons)
    then show ?thesis using Suc.IH Cons by simp
  qed
qed

lemma noAdj_take: "noAdjacentWhitespace xs \<Longrightarrow> noAdjacentWhitespace (take n xs)"
proof (induction n arbitrary: xs)
  case 0 then show ?case by simp
next
  case (Suc n)
  show ?case
  proof (cases xs)
    case Nil then show ?thesis by simp
  next
    case (Cons a ys)
    with Suc.prems have a: "noAdjacentWhitespace ys" and b: "ys = [] \<or> \<not> (isWhiteSpace a \<and> isWhiteSpace (hd ys))" by (simp_all add: noAdj_cons)
    have "noAdjacentWhitespace (take n ys)" using Suc.IH a by simp
    moreover have "take n ys = [] \<or> hd (take n ys) = hd ys" by (cases n; cases ys) auto
    ultimately show ?thesis using Cons b by (auto simp: noAdj_cons)
  qed
qed

lemma trimEnd_is_take: "rev (dropWhile P (rev ys)) = take (length (dropWhile P (rev ys))) ys"
proof -
  have "rev ys = takeWhile P (rev ys) @ dropWhile P (rev ys)" by simp
  then have "ys = rev (dropWhile P (rev ys)) @ rev (takeWhile P (rev ys))"
    by (metis rev_append rev_rev_ident)
  then show ?thesis by (metis append_eq_conv_conj length_rev)
qed

lemma trim_shape: "trim s = take (length (trim s)) (drop (length (takeWhile isWhiteSpace s)) s)"
proof -
  let ?d = "dropWhile isWhiteSpace s"
  have "trim s = take (length (dropWhile isWhiteSpace (rev ?d))) ?d"
    unfolding trim_def by (rule trimEnd_is_take)
  moreover have "length (trim s) = length (dropWhile isWhiteSpace (rev ?d))"
    unfolding trim_def by (rule length_rev)
  ultimately have "trim s = take (length (trim s)) ?d" by (simp only:)
  then show ?thesis by (simp only: dropWhile_eq_drop)
qed

lemma trim_noAdj: "noAdjacentWhitespace s \<Longrightarrow> noAdjacentWhitespace (trim s)"
  by (subst trim_shape) (intro noAdj_take noAdj_drop)

lemma trim_set: "set (trim s) \<subseteq> set s"
  by (subst trim_shape) (meson set_take_subset set_drop_subset subset_trans)

lemma trim_length: "length (trim s) \<le> length s"
  by (subst trim_shape) simp

lemma trim_last: "trim s \<noteq> [] \<Longrightarrow> \<not> isWhiteSpace (last (trim s))"
  unfolding trim_def by (simp add: last_rev hd_dropWhile)

lemma trim_hd: "trim s \<noteq> [] \<Longrightarrow> \<not> isWhiteSpace (hd (trim s))"
proof -
  assume ne: "trim s \<noteq> []"
  let ?d = "dropWhile isWhiteSpace s"
  have t: "trim s = take (length (trim s)) ?d" using trim_shape[of s] by (simp only: dropWhile_eq_drop)
  have dne: "?d \<noteq> []"
  proof
    assume "?d = []"
    then have "take (length (trim s)) ?d = []" by (simp only: take_Nil)
    with t ne show False by (simp only:)
  qed
  have "hd (trim s) = hd ?d" using ne t by (metis hd_take length_greater_0_conv)
  then show ?thesis using hd_dropWhile[OF dne] by simp
qed


lemma upper_allowed: "list_all allowedChar s \<Longrightarrow> toUpperCase ext s = s"
  by (induction s) (auto simp: toUpperCase_def allowedChar_def asciiUpper_def)

lemma remove_all: "list_all allowedChar (removeDisallowed s)"
  by (simp add: removeDisallowed_def list_all_iff)

lemma collapse_all: "list_all allowedChar s \<Longrightarrow> list_all allowedChar (collapseWhitespace s)"
  using collapse_set[of s] by (auto simp: list_all_iff allowed32)

lemma trim_all: "list_all allowedChar s \<Longrightarrow> list_all allowedChar (trim s)"
  using trim_set[of s] by (auto simp: list_all_iff)

lemma GEIST_props: "list_all allowedChar GEIST" "GEIST \<noteq> []" "noAdjacentWhitespace GEIST"
  "hd GEIST \<noteq> 32" "last GEIST \<noteq> 32" "length GEIST = 5"
  by (simp_all add: GEIST_def allowedChar_def isWhiteSpace_def)

lemma core_props:
  fixes s defines "n \<equiv> trim (collapseWhitespace (removeDisallowed s))"
  shows "list_all allowedChar n" "noAdjacentWhitespace n" "n \<noteq> [] \<Longrightarrow> hd n \<noteq> 32 \<and> last n \<noteq> 32"
    "length n \<le> length (removeDisallowed s)"
proof -
  show "list_all allowedChar n" unfolding n_def by (intro trim_all collapse_all remove_all)
  show "noAdjacentWhitespace n" unfolding n_def by (intro trim_noAdj collapse_noAdj)
  show "n \<noteq> [] \<Longrightarrow> hd n \<noteq> 32 \<and> last n \<noteq> 32"
    unfolding n_def using trim_hd trim_last ws32 by metis
  show "length n \<le> length (removeDisallowed s)"
    unfolding n_def using trim_length collapse_length le_trans by blast
qed

lemma normalizeWord_cases:
  "normalizeWord ext v = GEIST \<or>
   (\<exists>s. normalizeWord ext v = trim (collapseWhitespace (removeDisallowed s)) \<and> normalizeWord ext v \<noteq> []
     \<and> s = toUpperCase ext (if v = [] then GEIST else v))"
  by (auto simp: normalizeWord_def Let_def)

lemma sanitize_all: "list_all allowedChar (sanitizeWord ext v)"
proof -
  have "list_all allowedChar (dropWhile isWhiteSpace (collapseWhitespace (removeDisallowed (toUpperCase ext v))))"
    using collapse_all[OF remove_all] set_dropWhileD by (fastforce simp: list_all_iff)
  then show ?thesis unfolding sanitizeWord_def trimStart_def
    by (auto simp: list_all_iff dest: in_set_takeD)
qed

lemma sanitize_len: "length (sanitizeWord ext v) \<le> 18"
  by (simp add: sanitizeWord_def)

text \<open>
  Claim C4, amended. For every input string, \<^verbatim>\<open>normalizeWord\<close> returns a non-empty string
  of characters in \<^verbatim>\<open>[A-Z0-9 ]\<close> (upper case letters, digits, space) in which no two
  neighbouring characters are white space and which neither starts nor ends with a space.
  The core does not cap the length. The cap of 18 is applied by the caller's
  \<^verbatim>\<open>sanitizeWord\<close>: the normalisation of a sanitised word has at most 18 characters.
\<close>

theorem normalizeWord_shape:
  "list_all allowedChar (normalizeWord ext v)
   \<and> normalizeWord ext v \<noteq> []
   \<and> noAdjacentWhitespace (normalizeWord ext v)
   \<and> hd (normalizeWord ext v) \<noteq> 32
   \<and> last (normalizeWord ext v) \<noteq> 32
   \<and> length (normalizeWord ext (sanitizeWord ext v)) \<le> 18"
proof -
  have a: "list_all allowedChar (normalizeWord ext v) \<and> normalizeWord ext v \<noteq> []
   \<and> noAdjacentWhitespace (normalizeWord ext v)
   \<and> hd (normalizeWord ext v) \<noteq> 32
   \<and> last (normalizeWord ext v) \<noteq> 32" for v
    using normalizeWord_cases[of ext v] core_props GEIST_props by metis
  have b: "length (normalizeWord ext (sanitizeWord ext v)) \<le> 18"
  proof -
    let ?w = "sanitizeWord ext v"
    from normalizeWord_cases[of ext ?w] show ?thesis
    proof
      assume "normalizeWord ext ?w = GEIST" then show ?thesis by (simp add: GEIST_props)
    next
      assume "\<exists>s. normalizeWord ext ?w = trim (collapseWhitespace (removeDisallowed s)) \<and> normalizeWord ext ?w \<noteq> []
     \<and> s = toUpperCase ext (if ?w = [] then GEIST else ?w)"
      then obtain s where s: "normalizeWord ext ?w = trim (collapseWhitespace (removeDisallowed s))"
        "s = toUpperCase ext (if ?w = [] then GEIST else ?w)" by blast
      have "list_all allowedChar (if ?w = [] then GEIST else ?w)" using sanitize_all GEIST_props(1) by simp
      then have "s = (if ?w = [] then GEIST else ?w)" using s(2) upper_allowed by blast
      then have "length s \<le> 18" using sanitize_len[of ext v] by (simp add: GEIST_props)
      moreover have "length (removeDisallowed s) \<le> length s" by (simp add: removeDisallowed_def)
      ultimately show ?thesis using core_props(4)[of s] s(1) by simp
    qed
  qed
  from a b show ?thesis by blast
qed

text \<open>
  Claim C4 as stated fails on the length cap: the word of nineteen letters A is returned
  unchanged, with its nineteen characters.
\<close>

theorem normalizeWord_cap_counterexample:
  "\<not> length (normalizeWord identityCase
       [65, 65, 65, 65, 65, 65, 65, 65, 65, 65, 65, 65, 65, 65, 65, 65, 65, 65, 65]) \<le> 18"
  by (simp add: normalizeWord_def toUpperCase_def asciiUpper_def removeDisallowed_def allowedChar_def
      trim_def isWhiteSpace_def GEIST_def)


theorem normalizeWord_shape_witness:
  "normalizeWord identityCase [32, 97, 32, 32, 98, 33, 49, 32] = [65, 32, 66, 49]
   \<and> list_all allowedChar (normalizeWord identityCase [32, 97, 32, 32, 98, 33, 49, 32])
   \<and> noAdjacentWhitespace (normalizeWord identityCase [32, 97, 32, 32, 98, 33, 49, 32])
   \<and> length (normalizeWord identityCase
         (sanitizeWord identityCase [32, 97, 32, 32, 98, 33, 49, 32])) \<le> 18"
proof -
  have "normalizeWord identityCase [32, 97, 32, 32, 98, 33, 49, 32] = [65, 32, 66, 49]"
    by (simp add: normalizeWord_def toUpperCase_def asciiUpper_def removeDisallowed_def
        allowedChar_def trim_def isWhiteSpace_def GEIST_def)
  then show ?thesis
    using normalizeWord_shape[of identityCase "[32, 97, 32, 32, 98, 33, 49, 32]"] by simp
qed

section \<open>Mode strengths: properties\<close>

lemma modeIds_distinct: "distinct INTERACTION_MODE_IDS" "length INTERACTION_MODE_IDS = 6"
  by (simp_all add: INTERACTION_MODE_IDS_def)

lemma normalizeModeStrengths_keys:
  "map fst (normalizeModeStrengths strToNum v) = INTERACTION_MODE_IDS"
  by (simp add: normalizeModeStrengths_def Let_def comp_def)

lemma map_of_tabulate:
  "m \<in> set ks \<Longrightarrow> map_of (map (\<lambda>k. (k, f k)) ks) m = Some (f m)"
  by (induction ks) auto

lemma normalizeModeStrengths_lookup:
  assumes "m \<in> set INTERACTION_MODE_IDS"
  shows "map_of (normalizeModeStrengths strToNum v) m
         = Some (case toNumber strToNum (inputEntry v m) of
                   Finite raw \<Rightarrow> max 0.4 (min 1.8 raw) | _ \<Rightarrow> 1)"
proof -
  have src: "getProp (case v of JObject ps \<Rightarrow> ps | _ \<Rightarrow> []) m = inputEntry v m"
    by (cases v) (simp_all add: inputEntry_def getProp_def)
  show ?thesis
    unfolding normalizeModeStrengths_def Let_def
    by (subst map_of_tabulate[OF assms]) (simp only: src)
qed

text \<open>
  What the code does for every input, an object or not: it returns exactly one entry per
  interaction-mode id, in the order of the ids, each between 0.4 and 1.8. Every entry is
  read through \<^verbatim>\<open>Number\<close>: a finite value is clamped to the interval, any other becomes
  1. So an entry that is a finite number is clamped, and an entry that is missing (also
  because the input is \<^verbatim>\<open>null\<close>, \<^verbatim>\<open>undefined\<close> or not an object) or is one of the
  non-finite numbers becomes 1.
\<close>

lemma normalizeModeStrengths_by_numeric_value:
  "map fst (normalizeModeStrengths strToNum v) = INTERACTION_MODE_IDS
   \<and> distinct INTERACTION_MODE_IDS \<and> length INTERACTION_MODE_IDS = 6
   \<and> (\<forall>m \<in> set INTERACTION_MODE_IDS.
        \<exists>r. map_of (normalizeModeStrengths strToNum v) m = Some r
           \<and> 0.4 \<le> r \<and> r \<le> 1.8
           \<and> (\<forall>raw. inputEntry v m = JNumber (Finite raw) \<longrightarrow>
                 r = (if raw < 0.4 then 0.4 else if 1.8 < raw then 1.8 else raw))
           \<and> (inputEntry v m = JUndefined \<or> inputEntry v m = JNumber NaN
              \<or> inputEntry v m = JNumber PosInfinity \<or> inputEntry v m = JNumber NegInfinity
              \<longrightarrow> r = 1)
           \<and> (\<forall>raw. toNumber strToNum (inputEntry v m) = Finite raw \<longrightarrow>
                 r = (if raw < 0.4 then 0.4 else if 1.8 < raw then 1.8 else raw))
           \<and> ((\<forall>raw. toNumber strToNum (inputEntry v m) \<noteq> Finite raw) \<longrightarrow> r = 1))"
proof -
  have "\<exists>r. map_of (normalizeModeStrengths strToNum v) m = Some r
           \<and> 0.4 \<le> r \<and> r \<le> 1.8
           \<and> (\<forall>raw. inputEntry v m = JNumber (Finite raw) \<longrightarrow>
                 r = (if raw < 0.4 then 0.4 else if 1.8 < raw then 1.8 else raw))
           \<and> (inputEntry v m = JUndefined \<or> inputEntry v m = JNumber NaN
              \<or> inputEntry v m = JNumber PosInfinity \<or> inputEntry v m = JNumber NegInfinity
              \<longrightarrow> r = 1)
           \<and> (\<forall>raw. toNumber strToNum (inputEntry v m) = Finite raw \<longrightarrow>
                 r = (if raw < 0.4 then 0.4 else if 1.8 < raw then 1.8 else raw))
           \<and> ((\<forall>raw. toNumber strToNum (inputEntry v m) \<noteq> Finite raw) \<longrightarrow> r = 1)"
    if m: "m \<in> set INTERACTION_MODE_IDS" for m
  proof -
    let ?r = "case toNumber strToNum (inputEntry v m) of
                   Finite raw \<Rightarrow> max 0.4 (min 1.8 raw) | _ \<Rightarrow> (1::real)"
    have "0.4 \<le> ?r \<and> ?r \<le> 1.8" by (cases "toNumber strToNum (inputEntry v m)") auto
    moreover have "?r = (if raw < 0.4 then 0.4 else if 1.8 < raw then 1.8 else raw)"
      if "inputEntry v m = JNumber (Finite raw)" for raw
      using that by (simp add: max_def min_def)
    moreover have "?r = 1"
      if "inputEntry v m = JUndefined \<or> inputEntry v m = JNumber NaN
              \<or> inputEntry v m = JNumber PosInfinity \<or> inputEntry v m = JNumber NegInfinity"
      using that by (auto simp:)
    moreover have "?r = (if raw < 0.4 then 0.4 else if 1.8 < raw then 1.8 else raw)"
      if "toNumber strToNum (inputEntry v m) = Finite raw" for raw
      using that by (simp add: max_def min_def)
    moreover have "?r = 1" if "\<forall>raw. toNumber strToNum (inputEntry v m) \<noteq> Finite raw"
      using that by (cases "toNumber strToNum (inputEntry v m)") simp_all
    ultimately show ?thesis using normalizeModeStrengths_lookup[OF m, of strToNum v] by blast
  qed
  then show ?thesis using normalizeModeStrengths_keys modeIds_distinct by blast
qed

lemma normalizeModeStrengths_examples:
  "normalizeModeStrengths exampleStrToNum exampleStrengths
     = [(''fluid'', 1.8), (''nebula'', 1), (''tide'', 1), (''vortex'', 0.4),
        (''ripple'', 1.2), (''magnet'', 1)]"
  "normalizeModeStrengths exampleStrToNum JNull
     = [(''fluid'', 1), (''nebula'', 1), (''tide'', 1), (''vortex'', 1),
        (''ripple'', 1), (''magnet'', 1)]"
  by (simp_all add: normalizeModeStrengths_def exampleStrengths_def INTERACTION_MODE_IDS_def
      getProp_def)

text \<open>
  Claim C9 does not hold for entries that are present but are not numbers. The claim sends
  every entry that is not a finite number to the default 1. The code converts first, and
  \<^verbatim>\<open>Number(null)\<close>, \<^verbatim>\<open>Number(false)\<close> and \<^verbatim>\<open>Number([])\<close> are 0: for the input
  \<^verbatim>\<open>{ fluid: null, nebula: false, tide: [] }\<close> the three entries come out as 0.4, the
  lower end of the interval, and only the missing ones as 1.
\<close>

theorem normalizeModeStrengths_null_entry:
  "normalizeModeStrengths exampleStrToNum
     (JObject [(''fluid'', JNull), (''nebula'', JBoolean False), (''tide'', JArray [])])
   = [(''fluid'', 0.4), (''nebula'', 0.4), (''tide'', 0.4), (''vortex'', 1),
      (''ripple'', 1), (''magnet'', 1)]"
  by (simp add: normalizeModeStrengths_def INTERACTION_MODE_IDS_def getProp_def)

section \<open>Target assignment and retargeting\<close>

lemma preservedSlot_range:
  "0 < n \<Longrightarrow> 0 \<le> preservedSlot oc n slots i \<and> preservedSlot oc n slots i < int n"
  by (simp add: preservedSlot_def Let_def)

lemma assignParticle_total: "\<exists>fd'. assignParticle p oc ts i fd = Inr fd'"
proof (cases "ts = []")
  case True then show ?thesis by (simp add: assignParticle_def)
next
  case False
  then have n: "0 < length ts" by simp
  have "0 \<le> int ((i * 17) mod length ts) \<and> int ((i * 17) mod length ts) < int (length ts)"
    using n by simp
  with preservedSlot_range[OF n] False show ?thesis
    by (simp add: assignParticle_def Let_def)
qed

lemma assignLoop_total: "\<exists>fd'. assignLoop p oc ts idxs fd = Inr fd'"
proof (induction idxs arbitrary: fd)
  case Nil show ?case by simp
next
  case (Cons i rest)
  obtain fd1 where "assignParticle p oc ts i fd = Inr fd1" using assignParticle_total by blast
  then show ?case using Cons.IH[of fd1] by simp
qed

text \<open>
  The loop keeps an invariant \<open>Q\<close> of the field, and a property \<open>P j\<close> of particle \<open>j\<close>
  that iteration \<open>j\<close> establishes and no iteration destroys holds for every index visited.
\<close>

lemma assignLoop_invariant:
  assumes step: "\<And>i fd fd'. assignParticle p oc ts i fd = Inr fd' \<Longrightarrow> Q fd \<Longrightarrow>
                   Q fd' \<and> P i fd' \<and> (\<forall>j. P j fd \<longrightarrow> P j fd')"
    and "Q fd" and "assignLoop p oc ts idxs fd = Inr fd'"
  shows "Q fd' \<and> (\<forall>j\<in>set idxs. P j fd') \<and> (\<forall>j. P j fd \<longrightarrow> P j fd')"
  using assms(2,3)
proof (induction idxs arbitrary: fd)
  case Nil then show ?case by simp
next
  case (Cons i rest)
  obtain fd1 where a: "assignParticle p oc ts i fd = Inr fd1" using assignParticle_total by blast
  with Cons.prems have l: "assignLoop p oc ts rest fd1 = Inr fd'" by simp
  from step[OF a Cons.prems(1)] have q1: "Q fd1" and p1: "P i fd1"
    and pr: "\<forall>j. P j fd \<longrightarrow> P j fd1" by blast+
  from Cons.IH[OF q1 l] show ?case using p1 pr by auto
qed

lemma word_of_int_slot_le: "0 \<le> k \<Longrightarrow> unat (word_of_int k :: 32 word) \<le> nat k"
proof -
  assume "0 \<le> k"
  then have "(word_of_int k :: 32 word) = of_nat (nat k)" by simp
  then show ?thesis by (simp add: unat_of_nat)
qed

lemma word_of_int_slot_eq: "m < 2 ^ 32 \<Longrightarrow> unat (word_of_int (int m) :: 32 word) = m"
  by (simp add: unat_of_nat)

text \<open>What one iteration leaves alone: everything but the four target arrays, whose
  lengths it keeps.\<close>

lemma assignParticle_frame:
  assumes "assignParticle p oc ts i fd = Inr fd'"
  shows "fd'\<lparr>targetX := targetX fd, targetY := targetY fd, targetGlyph := targetGlyph fd,
             targetSlot := targetSlot fd\<rparr> = fd"
    and "length (targetX fd') = length (targetX fd)"
    and "length (targetY fd') = length (targetY fd)"
    and "length (targetGlyph fd') = length (targetGlyph fd)"
    and "length (targetSlot fd') = length (targetSlot fd)"
  using assms by (auto simp: assignParticle_def Let_def split: if_splits)

lemma assignLoop_frame:
  assumes "assignLoop p oc ts idxs fd = Inr fd'"
  shows "fd'\<lparr>targetX := targetX fd, targetY := targetY fd, targetGlyph := targetGlyph fd,
             targetSlot := targetSlot fd\<rparr> = fd
         \<and> length (targetX fd') = length (targetX fd)
         \<and> length (targetY fd') = length (targetY fd)
         \<and> length (targetGlyph fd') = length (targetGlyph fd)
         \<and> length (targetSlot fd') = length (targetSlot fd)"
  using assms
proof (induction idxs arbitrary: fd)
  case Nil then show ?case by simp
next
  case (Cons i rest)
  obtain fd1 where a: "assignParticle p oc ts i fd = Inr fd1" using assignParticle_total by blast
  with Cons.prems have l: "assignLoop p oc ts rest fd1 = Inr fd'" by simp
  note f1 = assignParticle_frame[OF a]
  note f2 = Cons.IH[OF l]
  have "fd'\<lparr>targetX := targetX fd, targetY := targetY fd, targetGlyph := targetGlyph fd,
             targetSlot := targetSlot fd\<rparr>
        = (fd'\<lparr>targetX := targetX fd1, targetY := targetY fd1, targetGlyph := targetGlyph fd1,
             targetSlot := targetSlot fd1\<rparr>)\<lparr>targetX := targetX fd, targetY := targetY fd,
             targetGlyph := targetGlyph fd, targetSlot := targetSlot fd\<rparr>"
    by simp
  also have "\<dots> = fd" using f2 f1(1) by simp
  finally show ?case using f1 f2 by simp
qed

lemma normalizeWord_nonempty: "normalizeWord ext v \<noteq> []"
  by (simp add: normalizeWord_def Let_def GEIST_def)

lemma assignForegroundTargets_result:
  "\<exists>fd'. assignLoop p (targetCount s) (foregroundTargets s) [0..<count (foregroundData s)]
            (foregroundData s) = Inr fd'
         \<and> assignForegroundTargets p s
             = Inr (s\<lparr>foregroundData := fd', targetCount := length (foregroundTargets s)\<rparr>)"
proof -
  obtain fd' where "assignLoop p (targetCount s) (foregroundTargets s)
      [0..<count (foregroundData s)] (foregroundData s) = Inr fd'"
    using assignLoop_total by blast
  then show ?thesis by (simp add: assignForegroundTargets_def)
qed

text \<open>
  Claim C10. Target assignment never reads \<^verbatim>\<open>foregroundTargets\<close> out of bounds: for
  either value of \<^verbatim>\<open>preserveSlots\<close> and from any prior state it returns normally (the
  \<^verbatim>\<open>TypeError\<close> of a missing target cannot happen), and it sets \<^verbatim>\<open>targetCount\<close> to the
  length of the target list. When that list is not empty, the slot stored for every particle
  is smaller than the new \<^verbatim>\<open>targetCount\<close>, and the continuity slot, after jitter and
  clamping, lies between 0 and \<^verbatim>\<open>targetCount - 1\<close>.
\<close>

theorem assignForegroundTargets_slot_in_bounds:
  "\<exists>s'. assignForegroundTargets p s = Inr s'
        \<and> targetCount s' = length (foregroundTargets s)
        \<and> length (targetSlot (foregroundData s')) = length (targetSlot (foregroundData s))
        \<and> (foregroundTargets s \<noteq> [] \<longrightarrow>
             (\<forall>i < count (foregroundData s). i < length (targetSlot (foregroundData s)) \<longrightarrow>
                unat (targetSlot (foregroundData s') ! i) < targetCount s'
                \<and> 0 \<le> preservedSlot (targetCount s) (targetCount s') (targetSlot (foregroundData s)) i
                \<and> preservedSlot (targetCount s) (targetCount s') (targetSlot (foregroundData s)) i
                     < int (targetCount s')))"
proof -
  let ?ts = "foregroundTargets s" and ?fd = "foregroundData s"
  obtain fd' where
    l: "assignLoop p (targetCount s) ?ts [0..<count ?fd] ?fd = Inr fd'" and
    r: "assignForegroundTargets p s = Inr (s\<lparr>foregroundData := fd', targetCount := length ?ts\<rparr>)"
    using assignForegroundTargets_result by blast
  have len: "length (targetSlot fd') = length (targetSlot ?fd)"
    using assignLoop_frame[OF l] by simp
  have slots: "\<forall>i < count ?fd. i < length (targetSlot ?fd) \<longrightarrow> unat (targetSlot fd' ! i) < length ?ts"
    if ne: "?ts \<noteq> []"
  proof -
    define P where "P j fd \<longleftrightarrow> (j < length (targetSlot fd) \<longrightarrow> unat (targetSlot fd ! j) < length ?ts)"
      for j and fd :: foreground_data
    have step: "True \<and> P i g' \<and> (\<forall>j. P j g \<longrightarrow> P j g')"
      if a: "assignParticle p (targetCount s) ?ts i g = Inr g'" for i g g'
    proof -
      from ne have n: "0 < length ?ts" by simp
      define slot where "slot = (if p \<and> targetCount s > 0
                    then preservedSlot (targetCount s) (length ?ts) (targetSlot g) i
                    else int ((i * 17) mod length ?ts))"
      have rng: "0 \<le> slot \<and> slot < int (length ?ts)"
        using preservedSlot_range[OF n] n by (simp add: slot_def)
      have g': "targetSlot g' = (targetSlot g)[i := word_of_int slot]"
        using a ne rng by (auto simp: assignParticle_def Let_def slot_def split: if_splits)
      have "unat (word_of_int slot :: 32 word) < length ?ts"
        using word_of_int_slot_le[of slot] rng by linarith
      have u: "unat (word_of_int slot :: 32 word) < length ?ts"
        using word_of_int_slot_le[of slot] rng by linarith
      have "P j g \<longrightarrow> P j g'" for j
        unfolding P_def g' using u by (cases "i = j") simp_all
      moreover have "P i g'" unfolding P_def g' using u by simp
      ultimately show ?thesis by blast
    qed
    have "True \<and> (\<forall>j\<in>set [0..<count ?fd]. P j fd') \<and> (\<forall>j. P j ?fd \<longrightarrow> P j fd')"
      by (rule assignLoop_invariant[where Q="\<lambda>_. True" and P=P, OF _ _ l]) (use step in auto)
    then show ?thesis using len by (auto simp: P_def)
  qed
  have rng: "0 \<le> preservedSlot (targetCount s) (length ?ts) (targetSlot ?fd) i
         \<and> preservedSlot (targetCount s) (length ?ts) (targetSlot ?fd) i < int (length ?ts)"
    if "?ts \<noteq> []" for i
    using preservedSlot_range[of "length ?ts"] that by simp
  show ?thesis using r len slots rng by simp
qed


theorem assignForegroundTargets_slot_in_bounds_witness:
  "\<exists>s'. assignForegroundTargets True
          (exampleState\<lparr>foregroundTargets := exampleTargets, targetCount := 2\<rparr>) = Inr s'
        \<and> targetCount s' = 3
        \<and> unat (targetSlot (foregroundData s') ! 0) < 3
        \<and> unat (targetSlot (foregroundData s') ! 1) < 3"
proof -
  let ?s = "exampleState\<lparr>foregroundTargets := exampleTargets, targetCount := 2\<rparr>"
  have ne: "foregroundTargets ?s \<noteq> []" by (simp add: exampleTargets_def)
  have c: "count (foregroundData ?s) = 2" "length (targetSlot (foregroundData ?s)) = 2"
    "length (foregroundTargets ?s) = 3"
    by (simp_all add: exampleState_def exampleField_def exampleTargets_def)
  from assignForegroundTargets_slot_in_bounds[of True ?s] obtain s' where
    r: "assignForegroundTargets True ?s = Inr s'" and t: "targetCount s' = length (foregroundTargets ?s)"
    and b: "foregroundTargets ?s \<noteq> [] \<longrightarrow>
             (\<forall>i < count (foregroundData ?s). i < length (targetSlot (foregroundData ?s)) \<longrightarrow>
                unat (targetSlot (foregroundData s') ! i) < targetCount s'
                \<and> 0 \<le> preservedSlot (targetCount ?s) (targetCount s') (targetSlot (foregroundData ?s)) i
                \<and> preservedSlot (targetCount ?s) (targetCount s') (targetSlot (foregroundData ?s)) i
                     < int (targetCount s'))"
    by blast
  from b ne have "\<forall>i < count (foregroundData ?s). i < length (targetSlot (foregroundData ?s)) \<longrightarrow>
                unat (targetSlot (foregroundData s') ! i) < targetCount s'" by blast
  then have "\<forall>i < 2. unat (targetSlot (foregroundData s') ! i) < 3"
    unfolding c t by simp
  then have "unat (targetSlot (foregroundData s') ! 0) < 3"
    "unat (targetSlot (foregroundData s') ! 1) < 3" by simp_all
  with r t c show ?thesis by metis
qed

text \<open>
  Claim C2. With an empty target list, target assignment gives every particle \<open>i\<close> below
  \<^verbatim>\<open>count\<close> its own home as target: \<^verbatim>\<open>targetX[i] = homeX[i]\<close>,
  \<^verbatim>\<open>targetY[i] = homeY[i]\<close>, \<^verbatim>\<open>targetGlyph[i] = baseGlyph[i]\<close> and
  \<^verbatim>\<open>targetSlot[i] = 0\<close>; the home position and the base glyph are the ones from before
  the call. The arrays have \<^verbatim>\<open>count\<close> elements, as the build allocates them.
\<close>

theorem assign_empty_targets_home:
  assumes "foregroundTargets s = []" and "wf_foreground (foregroundData s)"
  shows "\<exists>s'. assignForegroundTargets p s = Inr s'
          \<and> (\<forall>i < count (foregroundData s).
                targetX (foregroundData s') ! i = homeX (foregroundData s') ! i
              \<and> targetY (foregroundData s') ! i = homeY (foregroundData s') ! i
              \<and> targetGlyph (foregroundData s') ! i = baseGlyph (foregroundData s') ! i
              \<and> targetSlot (foregroundData s') ! i = 0
              \<and> homeX (foregroundData s') ! i = homeX (foregroundData s) ! i
              \<and> homeY (foregroundData s') ! i = homeY (foregroundData s) ! i
              \<and> baseGlyph (foregroundData s') ! i = baseGlyph (foregroundData s) ! i)"
proof -
  let ?fd = "foregroundData s"
  obtain fd' where
    l: "assignLoop p (targetCount s) [] [0..<count ?fd] ?fd = Inr fd'" and
    r: "assignForegroundTargets p s = Inr (s\<lparr>foregroundData := fd', targetCount := 0\<rparr>)"
    using assignForegroundTargets_result[of p s] assms(1) by auto
  define Q where "Q fd \<longleftrightarrow> wf_foreground fd \<and> count fd = count ?fd \<and> homeX fd = homeX ?fd
      \<and> homeY fd = homeY ?fd \<and> baseGlyph fd = baseGlyph ?fd" for fd :: foreground_data
  define P where "P j fd \<longleftrightarrow> (j < count ?fd \<longrightarrow> targetX fd ! j = homeX ?fd ! j
      \<and> targetY fd ! j = homeY ?fd ! j \<and> targetGlyph fd ! j = baseGlyph ?fd ! j
      \<and> targetSlot fd ! j = 0)" for j and fd :: foreground_data
  have step: "Q g' \<and> P i g' \<and> (\<forall>j. P j g \<longrightarrow> P j g')"
    if a: "assignParticle p (targetCount s) [] i g = Inr g'" and q: "Q g" for i g g'
  proof -
    have g': "g' = g\<lparr>targetX := (targetX g)[i := homeX g ! i],
                targetY := (targetY g)[i := homeY g ! i],
                targetGlyph := (targetGlyph g)[i := baseGlyph g ! i],
                targetSlot := (targetSlot g)[i := 0]\<rparr>"
      using a by (simp add: assignParticle_def)
    have "Q g'" using q unfolding Q_def g' wf_foreground_def by auto
    moreover have "P i g'" using q unfolding Q_def P_def g' wf_foreground_def by auto
    moreover have "P j g \<longrightarrow> P j g'" for j
      using q unfolding Q_def P_def g' wf_foreground_def by (cases "i = j") auto
    ultimately show ?thesis by blast
  qed
  have q0: "Q ?fd" using assms(2) by (simp add: Q_def)
  have "Q fd' \<and> (\<forall>j\<in>set [0..<count ?fd]. P j fd') \<and> (\<forall>j. P j ?fd \<longrightarrow> P j fd')"
    by (rule assignLoop_invariant[where Q=Q and P=P, OF _ q0 l]) (use step in blast)
  then show ?thesis using r by (auto simp: P_def Q_def)
qed

theorem assign_empty_targets_home_witness:
  "foregroundTargets exampleState = [] \<and> wf_foreground (foregroundData exampleState)
   \<and> (\<exists>s'. assignForegroundTargets True exampleState = Inr s'
        \<and> targetX (foregroundData s') = [-9, 9]
        \<and> targetY (foregroundData s') = [5, 5]
        \<and> targetGlyph (foregroundData s') = [3, 7]
        \<and> targetSlot (foregroundData s') = [0, 0])"
proof -
  have a: "foregroundTargets exampleState = []" by (simp add: exampleState_def)
  have b: "wf_foreground (foregroundData exampleState)"
    by (simp add: exampleState_def exampleField_def wf_foreground_def)
  obtain s' where s': "assignForegroundTargets True exampleState = Inr s'"
    and v: "\<forall>i < count (foregroundData exampleState).
                targetX (foregroundData s') ! i = homeX (foregroundData s') ! i
              \<and> targetY (foregroundData s') ! i = homeY (foregroundData s') ! i
              \<and> targetGlyph (foregroundData s') ! i = baseGlyph (foregroundData s') ! i
              \<and> targetSlot (foregroundData s') ! i = 0
              \<and> homeX (foregroundData s') ! i = homeX (foregroundData exampleState) ! i
              \<and> homeY (foregroundData s') ! i = homeY (foregroundData exampleState) ! i
              \<and> baseGlyph (foregroundData s') ! i = baseGlyph (foregroundData exampleState) ! i"
    using assign_empty_targets_home[OF a b, of True] by blast
  have "assignForegroundTargets True exampleState
        = Inr (exampleState\<lparr>foregroundData := exampleField\<lparr>targetX := [-9, 9], targetY := [5, 5],
              targetGlyph := [3, 7], targetSlot := [0, 0]\<rparr>, targetCount := 0\<rparr>)"
    by (simp add: assignForegroundTargets_def exampleState_def exampleField_def
        assignParticle_def upt_rec)
  with s' a b show ?thesis by auto
qed


text \<open>
  Claim C8. On a fresh build (\<^verbatim>\<open>preserveSlots = false\<close>) with \<open>n > 0\<close> targets, every
  particle \<open>i\<close> below \<^verbatim>\<open>count\<close> is assigned the slot \<open>(i * 17) mod n\<close> and receives the
  position and the glyph of the target point at that slot. A JavaScript array has fewer than
  \<open>2 ^ 32\<close> elements, so the slot is stored in the \<^verbatim>\<open>Uint32Array\<close> as it is.
\<close>

theorem assign_fresh_stride:
  assumes "foregroundTargets s \<noteq> []" and "length (foregroundTargets s) < 2 ^ 32"
    and "wf_foreground (foregroundData s)"
  shows "\<exists>s'. assignForegroundTargets False s = Inr s'
          \<and> (\<forall>i < count (foregroundData s).
                unat (targetSlot (foregroundData s') ! i)
                  = (i * 17) mod length (foregroundTargets s)
              \<and> targetX (foregroundData s') ! i
                  = target_x (foregroundTargets s ! ((i * 17) mod length (foregroundTargets s)))
              \<and> targetY (foregroundData s') ! i
                  = target_y (foregroundTargets s ! ((i * 17) mod length (foregroundTargets s)))
              \<and> targetGlyph (foregroundData s') ! i
                  = real (target_glyph
                       (foregroundTargets s ! ((i * 17) mod length (foregroundTargets s)))))"
proof -
  let ?fd = "foregroundData s" and ?ts = "foregroundTargets s"
  let ?n = "length ?ts"
  obtain fd' where
    l: "assignLoop False (targetCount s) ?ts [0..<count ?fd] ?fd = Inr fd'" and
    r: "assignForegroundTargets False s = Inr (s\<lparr>foregroundData := fd', targetCount := ?n\<rparr>)"
    using assignForegroundTargets_result[of False s] by auto
  define Q where "Q fd \<longleftrightarrow> wf_foreground fd \<and> count fd = count ?fd"
    for fd :: foreground_data
  define P where "P j fd \<longleftrightarrow> (j < count ?fd \<longrightarrow>
        unat (targetSlot fd ! j) = (j * 17) mod ?n
      \<and> targetX fd ! j = target_x (?ts ! ((j * 17) mod ?n))
      \<and> targetY fd ! j = target_y (?ts ! ((j * 17) mod ?n))
      \<and> targetGlyph fd ! j = real (target_glyph (?ts ! ((j * 17) mod ?n))))"
    for j and fd :: foreground_data
  have n: "0 < ?n" using assms(1) by simp
  have step: "Q g' \<and> P i g' \<and> (\<forall>j. P j g \<longrightarrow> P j g')"
    if a: "assignParticle False (targetCount s) ?ts i g = Inr g'" and q: "Q g" for i g g'
  proof -
    let ?slot = "(i * 17) mod ?n"
    have lt: "?slot < ?n" using n by simp
    have g': "g' = g\<lparr>targetX := (targetX g)[i := target_x (?ts ! ?slot)],
                targetY := (targetY g)[i := target_y (?ts ! ?slot)],
                targetGlyph := (targetGlyph g)[i := real (target_glyph (?ts ! ?slot))],
                targetSlot := (targetSlot g)[i := word_of_int (int ?slot)]\<rparr>"
      using a assms(1) lt by (simp add: assignParticle_def Let_def)
    have u: "unat (word_of_int (int ?slot) :: 32 word) = ?slot"
      using lt assms(2) by (intro word_of_int_slot_eq) linarith
    have "Q g'" using q unfolding Q_def g' wf_foreground_def by auto
    moreover have "P i g'" using q u unfolding Q_def P_def g' wf_foreground_def by auto
    moreover have "P j g \<longrightarrow> P j g'" for j
      using q u unfolding Q_def P_def g' wf_foreground_def by (cases "i = j") auto
    ultimately show ?thesis by blast
  qed
  have q0: "Q ?fd" using assms(3) by (simp add: Q_def)
  have "Q fd' \<and> (\<forall>j\<in>set [0..<count ?fd]. P j fd') \<and> (\<forall>j. P j ?fd \<longrightarrow> P j fd')"
    by (rule assignLoop_invariant[where Q=Q and P=P, OF _ q0 l]) (use step in blast)
  then show ?thesis using r by (auto simp: P_def Q_def)
qed

theorem assign_fresh_stride_witness:
  "foregroundTargets (exampleState\<lparr>foregroundTargets := exampleTargets\<rparr>) \<noteq> []
   \<and> length (foregroundTargets (exampleState\<lparr>foregroundTargets := exampleTargets\<rparr>)) < 2 ^ 32
   \<and> wf_foreground (foregroundData (exampleState\<lparr>foregroundTargets := exampleTargets\<rparr>))
   \<and> (\<exists>s'. assignForegroundTargets False (exampleState\<lparr>foregroundTargets := exampleTargets\<rparr>)
              = Inr s'
          \<and> targetSlot (foregroundData s') = [0, 2]
          \<and> targetX (foregroundData s') = [-1, 3]
          \<and> targetY (foregroundData s') = [1/2, 1/2]
          \<and> targetGlyph (foregroundData s') = [6, 8]
          \<and> unat (targetSlot (foregroundData s') ! 1) = (1 * 17) mod 3)"
proof -
  let ?s = "exampleState\<lparr>foregroundTargets := exampleTargets\<rparr>"
  have a: "foregroundTargets ?s \<noteq> []" by (simp add: exampleTargets_def)
  have b: "length (foregroundTargets ?s) < 2 ^ 32" by (simp add: exampleTargets_def)
  have c: "wf_foreground (foregroundData ?s)"
    by (simp add: exampleState_def exampleField_def wf_foreground_def)
  have d: "count (foregroundData ?s) = 2" "length (foregroundTargets ?s) = 3"
    by (simp_all add: exampleState_def exampleField_def exampleTargets_def)
  have e: "assignForegroundTargets False ?s
        = Inr (?s\<lparr>foregroundData := exampleField\<lparr>targetX := [-1, 3], targetY := [1/2, 1/2],
              targetGlyph := [6, 8], targetSlot := [0, 2]\<rparr>, targetCount := 3\<rparr>)"
    by (simp add: assignForegroundTargets_def exampleState_def exampleField_def
        exampleTargets_def assignParticle_def upt_rec Let_def)
  from assign_fresh_stride[OF a b c] obtain s' where
    r: "assignForegroundTargets False ?s = Inr s'" and
    v: "\<forall>i < count (foregroundData ?s).
          unat (targetSlot (foregroundData s') ! i) = (i * 17) mod length (foregroundTargets ?s)"
    by blast
  from v have "\<forall>i < 2. unat (targetSlot (foregroundData s') ! i) = (i * 17) mod 3"
    unfolding d by simp
  then have v': "unat (targetSlot (foregroundData s') ! 1) = (1 * 17) mod 3"
    by (simp del: mult_1)
  from r e have "s' = ?s\<lparr>foregroundData := exampleField\<lparr>targetX := [-1, 3], targetY := [1/2, 1/2],
              targetGlyph := [6, 8], targetSlot := [0, 2]\<rparr>, targetCount := 3\<rparr>" by simp
  then have "targetSlot (foregroundData s') = [0, 2]" "targetX (foregroundData s') = [-1, 3]"
    "targetY (foregroundData s') = [1/2, 1/2]" "targetGlyph (foregroundData s') = [6, 8]"
    by simp_all
  with a b c r v' show ?thesis by blast
qed


lemma assignForegroundTargets_frame:
  assumes "assignForegroundTargets p s = Inr s'"
  shows "s'\<lparr>targetCount := targetCount s,
            foregroundData := (foregroundData s')\<lparr>targetX := targetX (foregroundData s),
              targetY := targetY (foregroundData s),
              targetGlyph := targetGlyph (foregroundData s),
              targetSlot := targetSlot (foregroundData s)\<rparr>\<rparr> = s"
    and "length (targetX (foregroundData s')) = length (targetX (foregroundData s))"
    and "length (targetY (foregroundData s')) = length (targetY (foregroundData s))"
    and "length (targetGlyph (foregroundData s')) = length (targetGlyph (foregroundData s))"
    and "length (targetSlot (foregroundData s')) = length (targetSlot (foregroundData s))"
proof -
  obtain fd' where
    l: "assignLoop p (targetCount s) (foregroundTargets s) [0..<count (foregroundData s)]
          (foregroundData s) = Inr fd'" and
    r: "assignForegroundTargets p s
          = Inr (s\<lparr>foregroundData := fd', targetCount := length (foregroundTargets s)\<rparr>)"
    using assignForegroundTargets_result by blast
  from r assms have s': "s' = s\<lparr>foregroundData := fd', targetCount := length (foregroundTargets s)\<rparr>"
    by simp
  note f = assignLoop_frame[OF l]
  show "s'\<lparr>targetCount := targetCount s,
            foregroundData := (foregroundData s')\<lparr>targetX := targetX (foregroundData s),
              targetY := targetY (foregroundData s),
              targetGlyph := targetGlyph (foregroundData s),
              targetSlot := targetSlot (foregroundData s)\<rparr>\<rparr> = s"
    unfolding s' using f by simp
  show "length (targetX (foregroundData s')) = length (targetX (foregroundData s))"
    "length (targetY (foregroundData s')) = length (targetY (foregroundData s))"
    "length (targetGlyph (foregroundData s')) = length (targetGlyph (foregroundData s))"
    "length (targetSlot (foregroundData s')) = length (targetSlot (foregroundData s))"
    unfolding s' using f by simp_all
qed

text \<open>
  Claim C1. A word change applied through \<^verbatim>\<open>retargetWord\<close> returns normally and leaves
  \<^verbatim>\<open>count\<close> and the arrays \<^verbatim>\<open>homeX\<close>, \<^verbatim>\<open>homeY\<close>, \<^verbatim>\<open>posX\<close>, \<^verbatim>\<open>posY\<close>,
  \<^verbatim>\<open>velX\<close>, \<^verbatim>\<open>velY\<close>, \<^verbatim>\<open>seed\<close> and \<^verbatim>\<open>baseGlyph\<close> as they were, contents and
  length; the four target arrays keep their length. Putting back the old values of the target
  arrays, of the two retarget scalars and of the word with its target list, target count and
  font size gives the state before the call: nothing else has changed. When the word does
  change, \<^verbatim>\<open>retargetMorph\<close> is 0 and \<^verbatim>\<open>retargetExcite\<close> is 1 afterwards.
\<close>

theorem retargetWord_keeps_particles:
  "\<exists>s'. retargetWord ext sampler w s = Inr s'
     \<and> count (foregroundData s') = count (foregroundData s)
     \<and> homeX (foregroundData s') = homeX (foregroundData s)
     \<and> homeY (foregroundData s') = homeY (foregroundData s)
     \<and> posX (foregroundData s') = posX (foregroundData s)
     \<and> posY (foregroundData s') = posY (foregroundData s)
     \<and> velX (foregroundData s') = velX (foregroundData s)
     \<and> velY (foregroundData s') = velY (foregroundData s)
     \<and> seed (foregroundData s') = seed (foregroundData s)
     \<and> baseGlyph (foregroundData s') = baseGlyph (foregroundData s)
     \<and> length (targetX (foregroundData s')) = length (targetX (foregroundData s))
     \<and> length (targetY (foregroundData s')) = length (targetY (foregroundData s))
     \<and> length (targetGlyph (foregroundData s')) = length (targetGlyph (foregroundData s))
     \<and> length (targetSlot (foregroundData s')) = length (targetSlot (foregroundData s))
     \<and> s'\<lparr>currentWord := currentWord s, solidFontSize := solidFontSize s,
           foregroundTargets := foregroundTargets s, targetCount := targetCount s,
           retargetMorph := retargetMorph s, retargetExcite := retargetExcite s,
           foregroundData := (foregroundData s')\<lparr>targetX := targetX (foregroundData s),
              targetY := targetY (foregroundData s),
              targetGlyph := targetGlyph (foregroundData s),
              targetSlot := targetSlot (foregroundData s)\<rparr>\<rparr> = s
     \<and> (if normalizeWord ext w = currentWord s \<or> count (foregroundData s) = 0
         then s' = s
         else currentWord s' = normalizeWord ext w
              \<and> retargetMorph s' = 0 \<and> retargetExcite s' = 1)"
proof (cases "normalizeWord ext w = [] \<or> normalizeWord ext w = currentWord s
               \<or> count (foregroundData s) = 0")
  case True
  then have "retargetWord ext sampler w s = Inr s" by (simp add: retargetWord_def)
  moreover have "normalizeWord ext w \<noteq> []" by (rule normalizeWord_nonempty)
  ultimately show ?thesis using True by auto
next
  case False
  define s2 where "s2 = s\<lparr>currentWord := normalizeWord ext w,
      solidFontSize := snd (sampler (s\<lparr>currentWord := normalizeWord ext w\<rparr>) (normalizeWord ext w)),
      foregroundTargets := fst (sampler (s\<lparr>currentWord := normalizeWord ext w\<rparr>) (normalizeWord ext w))\<rparr>"
  obtain s3 where a: "assignForegroundTargets True s2 = Inr s3"
    using assignForegroundTargets_result by blast
  have r: "retargetWord ext sampler w s = Inr (s3\<lparr>retargetMorph := 0, retargetExcite := 1\<rparr>)"
    using False a by (simp add: retargetWord_def Let_def s2_def)
  note f = assignForegroundTargets_frame[OF a]
  have fd2: "foregroundData s2 = foregroundData s" "targetCount s2 = targetCount s"
    by (simp_all add: s2_def)
  have e: "s3\<lparr>targetCount := targetCount s,
            foregroundData := (foregroundData s3)\<lparr>targetX := targetX (foregroundData s),
              targetY := targetY (foregroundData s),
              targetGlyph := targetGlyph (foregroundData s),
              targetSlot := targetSlot (foregroundData s)\<rparr>\<rparr> = s2"
    using f(1) by (simp only: fd2)
  have fdeq: "(foregroundData s3)\<lparr>targetX := targetX (foregroundData s),
              targetY := targetY (foregroundData s),
              targetGlyph := targetGlyph (foregroundData s),
              targetSlot := targetSlot (foregroundData s)\<rparr> = foregroundData s"
    using arg_cong[OF e, of foregroundData] by (simp add: fd2)
  have cw: "currentWord s3 = normalizeWord ext w"
    using arg_cong[OF e, of currentWord] by (simp add: s2_def)
  have big: "s3\<lparr>retargetMorph := 0, retargetExcite := 1, currentWord := currentWord s,
           solidFontSize := solidFontSize s,
           foregroundTargets := foregroundTargets s, targetCount := targetCount s,
           retargetMorph := retargetMorph s, retargetExcite := retargetExcite s,
           foregroundData := (foregroundData s3)\<lparr>targetX := targetX (foregroundData s),
              targetY := targetY (foregroundData s),
              targetGlyph := targetGlyph (foregroundData s),
              targetSlot := targetSlot (foregroundData s)\<rparr>\<rparr>
        = s2\<lparr>currentWord := currentWord s, solidFontSize := solidFontSize s,
           foregroundTargets := foregroundTargets s,
           retargetMorph := retargetMorph s, retargetExcite := retargetExcite s\<rparr>"
    by (subst e[symmetric]) simp
  have big2: "s2\<lparr>currentWord := currentWord s, solidFontSize := solidFontSize s,
           foregroundTargets := foregroundTargets s,
           retargetMorph := retargetMorph s, retargetExcite := retargetExcite s\<rparr> = s"
    by (simp add: s2_def)
  have parts: "count (foregroundData s3) = count (foregroundData s)"
     "homeX (foregroundData s3) = homeX (foregroundData s)"
     "homeY (foregroundData s3) = homeY (foregroundData s)"
     "posX (foregroundData s3) = posX (foregroundData s)"
     "posY (foregroundData s3) = posY (foregroundData s)"
     "velX (foregroundData s3) = velX (foregroundData s)"
     "velY (foregroundData s3) = velY (foregroundData s)"
     "seed (foregroundData s3) = seed (foregroundData s)"
     "baseGlyph (foregroundData s3) = baseGlyph (foregroundData s)"
    using arg_cong[OF fdeq, of count] arg_cong[OF fdeq, of homeX] arg_cong[OF fdeq, of homeY]
      arg_cong[OF fdeq, of posX] arg_cong[OF fdeq, of posY] arg_cong[OF fdeq, of velX]
      arg_cong[OF fdeq, of velY] arg_cong[OF fdeq, of seed] arg_cong[OF fdeq, of baseGlyph]
    by simp_all
  show ?thesis
    using r parts f(2-5) big big2 cw False by (simp add: fd2)
qed


lemma normalizeWord_examples:
  "normalizeWord identityCase [65, 66] = [65, 66]"
  "normalizeWord identityCase [103, 101, 105, 115, 116] = GEIST"
  by (simp_all add: normalizeWord_def toUpperCase_def asciiUpper_def removeDisallowed_def
      allowedChar_def trim_def isWhiteSpace_def GEIST_def)

theorem retargetWord_keeps_particles_witness:
  "\<exists>s'. retargetWord identityCase exampleSampler [65, 66] exampleState = Inr s'
     \<and> count (foregroundData s') = 2
     \<and> posX (foregroundData s') = [-8, 10]
     \<and> velX (foregroundData s') = [0, 0]
     \<and> currentWord s' = [65, 66]
     \<and> retargetMorph s' = 0 \<and> retargetExcite s' = 1"
proof -
  have c: "\<not> (normalizeWord identityCase [65, 66] = currentWord exampleState
            \<or> count (foregroundData exampleState) = 0)"
    by (simp add: normalizeWord_examples exampleState_def exampleField_def GEIST_def)
  have d: "count (foregroundData exampleState) = 2" "posX (foregroundData exampleState) = [-8, 10]"
    "velX (foregroundData exampleState) = [0, 0]"
    by (simp_all add: exampleState_def exampleField_def)
  from retargetWord_keeps_particles[of identityCase exampleSampler "[65, 66]" exampleState]
  obtain s' where r: "retargetWord identityCase exampleSampler [65, 66] exampleState = Inr s'"
    and k: "count (foregroundData s') = count (foregroundData exampleState)"
      "posX (foregroundData s') = posX (foregroundData exampleState)"
      "velX (foregroundData s') = velX (foregroundData exampleState)"
    and i: "if normalizeWord identityCase [65, 66] = currentWord exampleState
               \<or> count (foregroundData exampleState) = 0
            then s' = exampleState
            else currentWord s' = normalizeWord identityCase [65, 66]
              \<and> retargetMorph s' = 0 \<and> retargetExcite s' = 1"
    by blast
  from i c have "currentWord s' = normalizeWord identityCase [65, 66]
              \<and> retargetMorph s' = 0 \<and> retargetExcite s' = 1" by (simp only: if_False)
  with r k show ?thesis unfolding d normalizeWord_examples by blast
qed

lemma retargetWord_sets_currentWord:
  assumes "retargetWord ext sampler w s = Inr s'" and "count (foregroundData s) \<noteq> 0"
  shows "currentWord s' = normalizeWord ext w \<and> count (foregroundData s') \<noteq> 0"
proof (cases "normalizeWord ext w = currentWord s")
  case True
  then have "retargetWord ext sampler w s = Inr s" by (simp add: retargetWord_def)
  with assms True show ?thesis by simp
next
  case False
  define s2 where "s2 = s\<lparr>currentWord := normalizeWord ext w,
      solidFontSize := snd (sampler (s\<lparr>currentWord := normalizeWord ext w\<rparr>) (normalizeWord ext w)),
      foregroundTargets := fst (sampler (s\<lparr>currentWord := normalizeWord ext w\<rparr>) (normalizeWord ext w))\<rparr>"
  obtain s3 where a: "assignForegroundTargets True s2 = Inr s3"
    using assignForegroundTargets_result by blast
  have "retargetWord ext sampler w s = Inr (s3\<lparr>retargetMorph := 0, retargetExcite := 1\<rparr>)"
    using False assms(2) a normalizeWord_nonempty[of ext w]
    by (simp add: retargetWord_def Let_def s2_def)
  with assms(1) have s': "s' = s3\<lparr>retargetMorph := 0, retargetExcite := 1\<rparr>" by simp
  note f = assignForegroundTargets_frame(1)[OF a]
  have "currentWord s3 = currentWord s2" using arg_cong[OF f, of currentWord] by simp
  moreover have "count (foregroundData s3) = count (foregroundData s2)"
    using arg_cong[OF f, of "\<lambda>x. count (foregroundData x)"] by simp
  ultimately show ?thesis using assms(2) by (simp add: s' s2_def)
qed

text \<open>
  Claim C6. Retargeting with a word whose normalisation is the current word is a no-op: the
  state after the call is the state before it, so the target list is not rebuilt, no target
  field changes, and \<^verbatim>\<open>retargetMorph\<close> and \<^verbatim>\<open>retargetExcite\<close> are not reset. In
  particular retargeting is idempotent: after any call with a word, a second call with the
  same word changes nothing, whatever the sampler would return.
\<close>

theorem retargetWord_same_word_noop:
  "(normalizeWord ext w = currentWord s \<longrightarrow> retargetWord ext sampler w s = Inr s)
   \<and> (retargetWord ext sampler w s = Inr s' \<longrightarrow> retargetWord ext sampler2 w s' = Inr s')"
proof (intro conjI impI)
  assume "normalizeWord ext w = currentWord s"
  then show "retargetWord ext sampler w s = Inr s" by (simp add: retargetWord_def)
next
  assume r: "retargetWord ext sampler w s = Inr s'"
  show "retargetWord ext sampler2 w s' = Inr s'"
  proof (cases "count (foregroundData s) = 0")
    case True
    then have "retargetWord ext sampler w s = Inr s" by (simp add: retargetWord_def)
    with r have "s' = s" by simp
    with True show ?thesis by (simp add: retargetWord_def)
  next
    case False
    from retargetWord_sets_currentWord[OF r False]
    show ?thesis by (simp add: retargetWord_def)
  qed
qed

lemma retargetWord_total: "\<exists>s'. retargetWord ext sampler w s = Inr s'"
proof -
  obtain s3 where "assignForegroundTargets True
      (s\<lparr>currentWord := normalizeWord ext w,
         solidFontSize := snd (sampler (s\<lparr>currentWord := normalizeWord ext w\<rparr>) (normalizeWord ext w)),
         foregroundTargets := fst (sampler (s\<lparr>currentWord := normalizeWord ext w\<rparr>) (normalizeWord ext w))\<rparr>)
      = Inr s3"
    using assignForegroundTargets_result by blast
  then show ?thesis by (simp add: retargetWord_def Let_def)
qed

theorem retargetWord_same_word_noop_witness:
  "normalizeWord identityCase [103, 101, 105, 115, 116] = currentWord exampleState
   \<and> retargetWord identityCase exampleSampler [103, 101, 105, 115, 116] exampleState
       = Inr exampleState
   \<and> (\<exists>s'. retargetWord identityCase exampleSampler [65, 66] exampleState = Inr s'
          \<and> retargetWord identityCase exampleSampler [65, 66] s' = Inr s')"
proof -
  have a: "normalizeWord identityCase [103, 101, 105, 115, 116] = currentWord exampleState"
    by (simp add: normalizeWord_examples exampleState_def)
  obtain s' where b: "retargetWord identityCase exampleSampler [65, 66] exampleState = Inr s'"
    using retargetWord_total by blast
  from a b
    retargetWord_same_word_noop[of identityCase "[103, 101, 105, 115, 116]" exampleState
      exampleSampler exampleState exampleSampler]
    retargetWord_same_word_noop[of identityCase "[65, 66]" exampleState
      exampleSampler s' exampleSampler]
  show ?thesis by blast
qed

section \<open>The frame loop: properties\<close>

lemma integrateParticle_fields:
  "qualityScale (integrateParticle e i tgt s) = qualityScale s"
  "pointer (integrateParticle e i tgt s) = pointer s"
  "count (foregroundData (integrateParticle e i tgt s)) = count (foregroundData s)"
  by (simp_all add: integrateParticle_def Let_def)

lemma stepParticle_fields:
  "qualityScale (stepParticle e m i s) = qualityScale s"
  "pointer (stepParticle e m i s) = pointer s"
  by (simp_all add: stepParticle_def integrateParticle_fields)

lemma fold_stepParticle_fields:
  "qualityScale (fold (stepParticle e m) idxs s) = qualityScale s
   \<and> pointer (fold (stepParticle e m) idxs s) = pointer s"
  by (induction idxs arbitrary: s) (simp_all add: stepParticle_fields)

lemma simulate_qualityScale: "qualityScale (simulate inp d t s) = qualityScale s"
  by (simp add: simulate_def Let_def fold_stepParticle_fields)

lemma simulate_pointer: "pointer (simulate inp d t s) = smoothPointer (motion inp) d (pointer s)"
  by (simp add: simulate_def Let_def fold_stepParticle_fields)

lemma clamp_between: "lo \<le> hi \<Longrightarrow> lo \<le> max lo (min hi v) \<and> max lo (min hi v) \<le> (hi::real)"
  by auto

lemma animate_unfold:
  fixes inp s
  defines "t \<equiv> elapsedTime s + clockDelta inp"
    and "d \<equiv> min 0.05 (clockDelta inp)"
  defines "ema \<equiv> fpsEma s + (1 / max 0.0001 d - fpsEma s) * 0.08"
  defines "s1 \<equiv> s\<lparr>elapsedTime := t, fpsEma := ema\<rparr>"
    and "tq \<equiv> targetQualityFor (devicePixelRatio inp) ema"
  shows "animate inp s =
     (if disposed s then s
      else if t > qualityEvalAt s then
             if \<bar>tq - qualityScale s\<bar> > 0.08 then
                  s1\<lparr>qualityScale :=
                        max 0.62 (min 1.05 (qualityScale s + sgn (tq - qualityScale s) * 0.08)),
                      qualityEvalAt := t + 3.2\<rparr>
                else simulate inp d t (s1\<lparr>qualityEvalAt := t + 3.2\<rparr>)
           else simulate inp d t s1)"
  unfolding animate_def Let_def t_def d_def ema_def s1_def tq_def by (rule refl)

text \<open>A frame ends in one of three ways: at once, after a quality step, or after the
  simulation of a state that differs from the old one in clock and quality bookkeeping.\<close>

lemma animate_shape:
  "animate inp s = s
   \<or> (\<exists>v s1. animate inp s = s1\<lparr>qualityScale := max 0.62 (min 1.05 v)\<rparr>
         \<and> pointer s1 = pointer s)
   \<or> (\<exists>s2. animate inp s
           = simulate inp (min 0.05 (clockDelta inp)) (elapsedTime s + clockDelta inp) s2
         \<and> qualityScale s2 = qualityScale s \<and> pointer s2 = pointer s)"
proof -
  define t where "t = elapsedTime s + clockDelta inp"
  define d where "d = min 0.05 (clockDelta inp)"
  define ema where "ema = fpsEma s + (1 / max 0.0001 d - fpsEma s) * 0.08"
  define s1 where "s1 = s\<lparr>elapsedTime := t, fpsEma := ema\<rparr>"
  define tq where "tq = targetQualityFor (devicePixelRatio inp) ema"
  define A where "A \<longleftrightarrow> t > qualityEvalAt s"
  define B where "B \<longleftrightarrow> \<bar>tq - qualityScale s\<bar> > 0.08"
  define v where "v = qualityScale s + sgn (tq - qualityScale s) * 0.08"
  have u: "animate inp s =
     (if disposed s then s
      else if A then
             if B then s1\<lparr>qualityScale := max 0.62 (min 1.05 v), qualityEvalAt := t + 3.2\<rparr>
                else simulate inp d t (s1\<lparr>qualityEvalAt := t + 3.2\<rparr>)
           else simulate inp d t s1)"
    unfolding A_def B_def v_def t_def d_def ema_def s1_def tq_def by (rule animate_unfold)
  have p1: "pointer s1 = pointer s" "qualityScale s1 = qualityScale s" by (simp_all add: s1_def)
  consider "disposed s" | "\<not> disposed s" "A" "B" | "\<not> disposed s" "A" "\<not> B"
    | "\<not> disposed s" "\<not> A" by blast
  then show ?thesis
  proof cases
    case 1 then show ?thesis using u by simp
  next
    case 2
    then have "animate inp s
        = (s1\<lparr>qualityEvalAt := t + 3.2\<rparr>)\<lparr>qualityScale := max 0.62 (min 1.05 v)\<rparr>"
      using u by simp
    moreover have "pointer (s1\<lparr>qualityEvalAt := t + 3.2\<rparr>) = pointer s" using p1 by simp
    ultimately show ?thesis by blast
  next
    case 3
    then have "animate inp s = simulate inp d t (s1\<lparr>qualityEvalAt := t + 3.2\<rparr>)"
      using u by simp
    moreover have "qualityScale (s1\<lparr>qualityEvalAt := t + 3.2\<rparr>) = qualityScale s"
      "pointer (s1\<lparr>qualityEvalAt := t + 3.2\<rparr>) = pointer s" using p1 by simp_all
    ultimately show ?thesis unfolding d_def t_def by blast
  next
    case 4
    then have "animate inp s = simulate inp d t s1" using u by simp
    then show ?thesis using p1 unfolding d_def t_def by blast
  qed
qed

lemma animate_qualityScale_cases:
  "qualityScale (animate inp s) = qualityScale s
   \<or> (\<exists>v. qualityScale (animate inp s) = max 0.62 (min 1.05 v))"
  using animate_shape[of inp s]
proof (elim disjE exE conjE)
  assume "animate inp s = s" then show ?thesis by simp
next
  fix v s1 assume "animate inp s = s1\<lparr>qualityScale := max 0.62 (min 1.05 v)\<rparr>"
  then have "qualityScale (animate inp s) = max 0.62 (min 1.05 v)" by simp
  then show ?thesis by blast
next
  fix s2 assume "animate inp s
           = simulate inp (min 0.05 (clockDelta inp)) (elapsedTime s + clockDelta inp) s2"
    "qualityScale s2 = qualityScale s"
  then show ?thesis by (simp add: simulate_qualityScale)
qed

lemma animate_quality: "qualityInBounds s \<Longrightarrow> qualityInBounds (animate inp s)"
proof -
  assume b: "qualityInBounds s"
  from animate_qualityScale_cases[of inp s] show ?thesis
  proof
    assume "qualityScale (animate inp s) = qualityScale s"
    with b show ?thesis by (simp add: qualityInBounds_def)
  next
    assume "\<exists>v. qualityScale (animate inp s) = max 0.62 (min 1.05 v)"
    then obtain v where v: "qualityScale (animate inp s) = max 0.62 (min 1.05 v)" by blast
    have "(0.62::real) \<le> 1.05" by simp
    from clamp_between[OF this, of v] show ?thesis unfolding qualityInBounds_def v .
  qed
qed

lemma initialQualityScale_bounds: "0.72 \<le> initialQualityScale dpr \<and> initialQualityScale dpr \<le> 1"
proof -
  have "0 \<le> max 0 (pixelRatioOr1 dpr - 1) * (0.12::real)" by simp
  then have "1 - max 0 (pixelRatioOr1 dpr - 1) * (0.12::real) \<le> 1" by linarith
  then show ?thesis unfolding initialQualityScale_def by (simp add: max_def)
qed

lemma run_quality: "qualityInBounds s \<Longrightarrow> list_all qualityInBounds (run ins s)"
  by (induction ins arbitrary: s) (simp_all add: animate_quality)

text \<open>
  Claim C5. The quality scale stays within \<open>[0.62, 1.05]\<close>: its initial value, for any
  device pixel ratio, lies in the interval, and so does its value after every tick of every
  run of the frame loop from a state with that initial value, whatever the frame deltas (and
  so the measured FPS), the pixel ratios and the other inputs of the ticks are.
\<close>

theorem qualityScale_invariant:
  "qualityInBounds (s\<lparr>qualityScale := initialQualityScale dpr\<rparr>)
   \<and> list_all qualityInBounds (run ins (s\<lparr>qualityScale := initialQualityScale dpr\<rparr>))"
proof -
  have "qualityInBounds (s\<lparr>qualityScale := initialQualityScale dpr\<rparr>)"
    using initialQualityScale_bounds[of dpr] by (simp add: qualityInBounds_def)
  then show ?thesis using run_quality by blast
qed


theorem qualityScale_invariant_witness:
  "initialQualityScale 2 = 0.88
   \<and> list_all qualityInBounds
        (run [exampleInput 0, exampleInput 1, exampleInput 0]
           (exampleState\<lparr>qualityScale := initialQualityScale 2\<rparr>))"
proof -
  have "initialQualityScale 2 = 0.88"
    by (simp add: initialQualityScale_def pixelRatioOr1_def)
  then show ?thesis
    using qualityScale_invariant[where s = exampleState and dpr = 2
        and ins = "[exampleInput 0, exampleInput 1, exampleInput 0]"]
    by blast
qed

subsection \<open>Mode independence of an idle pointer\<close>

lemma adjustForPointer_idle: "strength e \<le> 0.001 \<Longrightarrow> adjustForPointer e m sd tgt = tgt"
  by (simp add: adjustForPointer_def)

lemma stepParticle_idle:
  "strength e \<le> 0.001 \<Longrightarrow> stepParticle e m i s = stepParticle e m' i s"
  by (simp add: stepParticle_def adjustForPointer_idle)

lemma fold_stepParticle_idle:
  "strength e \<le> 0.001 \<Longrightarrow>
   fold (stepParticle e m) idxs s = fold (stepParticle e m') idxs s"
  by (induction idxs arbitrary: s) (simp_all add: stepParticle_idle[of e m _ _ m'])

lemma tickEnv_strength:
  "strength (tickEnv mo d t s) = pointerStrength (smoothPointer mo d (pointer s))"
  by (simp add: tickEnv_def Let_def)

lemma sameExceptMode_fields:
  assumes "sameExceptMode a b"
  shows "clockDelta a = clockDelta b" "devicePixelRatio a = devicePixelRatio b"
    "motion a = motion b" "modeStrengths a = modeStrengths b"
proof -
  from assms have e: "a\<lparr>modeIndex := modeIndex b\<rparr> = b" by (simp add: sameExceptMode_def)
  show "clockDelta a = clockDelta b" using arg_cong[OF e, of clockDelta] by simp
  show "devicePixelRatio a = devicePixelRatio b" using arg_cong[OF e, of devicePixelRatio] by simp
  show "motion a = motion b" using arg_cong[OF e, of motion] by simp
  show "modeStrengths a = modeStrengths b" using arg_cong[OF e, of modeStrengths] by simp
qed

lemma simulate_mode:
  assumes "motion a = motion b"
    and "pointerStrength (smoothPointer (motion a) d (pointer s)) \<le> 0.001"
  shows "simulate a d t s = simulate b d t s"
proof -
  let ?e = "tickEnv (motion b) d t s"
  have st: "strength ?e \<le> 0.001" using assms by (simp add: tickEnv_strength)
  show ?thesis
    unfolding simulate_def Let_def assms(1)
    by (simp add: fold_stepParticle_idle[OF st, of "modeParams a s (floatingMix ?e)" _ _
          "modeParams b s (floatingMix ?e)"])
qed

lemma animate_mode:
  assumes same: "sameExceptMode a b"
    and idle: "pointerStrength (pointer (animate a s)) = 0"
  shows "animate a s = animate b s"
proof -
  note f = sameExceptMode_fields[OF same]
  define t where "t = elapsedTime s + clockDelta a"
  define d where "d = min 0.05 (clockDelta a)"
  define ema where "ema = fpsEma s + (1 / max 0.0001 d - fpsEma s) * 0.08"
  define s1 where "s1 = s\<lparr>elapsedTime := t, fpsEma := ema\<rparr>"
  define tq where "tq = targetQualityFor (devicePixelRatio a) ema"
  define A where "A \<longleftrightarrow> t > qualityEvalAt s"
  define B where "B \<longleftrightarrow> \<bar>tq - qualityScale s\<bar> > 0.08"
  define Q where "Q = s1\<lparr>qualityScale :=
                        max 0.62 (min 1.05 (qualityScale s + sgn (tq - qualityScale s) * 0.08)),
                      qualityEvalAt := t + 3.2\<rparr>"
  have ua: "animate x s =
     (if disposed s then s
      else if A then if B then Q else simulate x d t (s1\<lparr>qualityEvalAt := t + 3.2\<rparr>)
           else simulate x d t s1)" if "clockDelta x = clockDelta a"
      "devicePixelRatio x = devicePixelRatio a" for x
    unfolding A_def B_def Q_def t_def d_def ema_def s1_def tq_def that[symmetric]
    by (rule animate_unfold)
  note a = ua[of a, OF refl refl] and b = ua[of b, OF f(1)[symmetric] f(2)[symmetric]]
  have sim: "simulate a d t s2 = simulate b d t s2"
    if "animate a s = simulate a d t s2" for s2
  proof -
    have "pointer (animate a s) = smoothPointer (motion a) d (pointer s2)"
      unfolding that by (rule simulate_pointer)
    with idle have "pointerStrength (smoothPointer (motion a) d (pointer s2)) \<le> 0.001" by simp
    from simulate_mode[OF f(3) this] show ?thesis .
  qed
  consider "disposed s" | "\<not> disposed s" "A" "B" | "\<not> disposed s" "A" "\<not> B"
    | "\<not> disposed s" "\<not> A" by blast
  then show ?thesis
  proof cases
    case 1 then show ?thesis using a b by simp
  next
    case 2 then show ?thesis using a b by simp
  next
    case 3
    then have "animate a s = simulate a d t (s1\<lparr>qualityEvalAt := t + 3.2\<rparr>)"
      "animate b s = simulate b d t (s1\<lparr>qualityEvalAt := t + 3.2\<rparr>)" using a b by simp_all
    then show ?thesis using sim by simp
  next
    case 4
    then have "animate a s = simulate a d t s1" "animate b s = simulate b d t s1"
      using a b by simp_all
    then show ?thesis using sim by simp
  qed
qed

lemma run_mode:
  "list_all2 sameExceptMode ins1 ins2 \<Longrightarrow> pointerIdle ins1 s \<Longrightarrow> run ins1 s = run ins2 s"
proof (induction ins1 ins2 arbitrary: s rule: list_all2_induct)
  case Nil then show ?case by simp
next
  case (Cons a as b bs)
  from Cons.prems have i: "pointerStrength (pointer (animate a s)) = 0"
    and r: "pointerIdle as (animate a s)" by simp_all
  have e: "animate a s = animate b s" by (rule animate_mode[OF Cons.hyps(1) i])
  from Cons.IH[OF r] e show ?case by simp
qed

text \<open>
  Claim C3. Two runs of the frame loop from the same state whose inputs agree tick by
  tick except for the selected interaction mode, with pointer strength 0 after the
  smoothing of every tick, show the same particles after every tick: the same \<^verbatim>\<open>posX\<close>,
  \<^verbatim>\<open>posY\<close>, \<^verbatim>\<open>velX\<close>, \<^verbatim>\<open>velY\<close> and the same displayed glyphs.
\<close>

theorem mode_irrelevant_without_pointer:
  assumes "list_all2 sameExceptMode ins1 ins2" and "pointerIdle ins1 s"
  shows "map particleView (run ins1 s) = map particleView (run ins2 s)
         \<and> length (run ins1 s) = length ins1 \<and> length (run ins2 s) = length ins1"
proof -
  have l: "length (run ins t) = length ins" for ins t
    by (induction ins arbitrary: t) simp_all
  from run_mode[OF assms] l list_all2_lengthD[OF assms(1)] show ?thesis by simp
qed


lemma smoothPointer_idle:
  "pointerStrength p = 0 \<Longrightarrow> pointerStrengthTarget p = 0 \<Longrightarrow>
   pointerStrength (smoothPointer mo d p) = 0 \<and> pointerStrengthTarget (smoothPointer mo d p) = 0"
  by (simp add: smoothPointer_def Let_def)

lemma animate_idle:
  assumes "pointerStrength (pointer s) = 0" and "pointerStrengthTarget (pointer s) = 0"
  shows "pointerStrength (pointer (animate inp s)) = 0
         \<and> pointerStrengthTarget (pointer (animate inp s)) = 0"
  using animate_shape[of inp s]
proof (elim disjE exE conjE)
  assume "animate inp s = s" then show ?thesis using assms by simp
next
  fix v s1 assume "animate inp s = s1\<lparr>qualityScale := max 0.62 (min 1.05 v)\<rparr>"
    "pointer s1 = pointer s"
  then show ?thesis using assms by simp
next
  fix s2 assume "animate inp s
           = simulate inp (min 0.05 (clockDelta inp)) (elapsedTime s + clockDelta inp) s2"
    "pointer s2 = pointer s"
  then show ?thesis using assms smoothPointer_idle by (simp add: simulate_pointer)
qed

lemma pointerIdle_without_pointer:
  "pointerStrength (pointer s) = 0 \<Longrightarrow> pointerStrengthTarget (pointer s) = 0 \<Longrightarrow>
   pointerIdle ins s"
proof (induction ins arbitrary: s)
  case Nil show ?case by simp
next
  case (Cons inp rest)
  from animate_idle[OF Cons.prems, of inp] Cons.IH[of "animate inp s"] show ?case by simp
qed

text \<open>After an immediate reset of the pointer (leave, cancel, blur, hidden tab) and
  without further pointer events, every run is idle.\<close>

lemma pointerIdle_after_reset:
  "pointerIdle ins (s\<lparr>pointer := resetPointerState True (pointer s)\<rparr>)"
  by (rule pointerIdle_without_pointer) (simp_all add: resetPointerState_def Let_def)

theorem mode_irrelevant_without_pointer_witness:
  "list_all2 sameExceptMode [exampleInput 0, exampleInput 0] [exampleInput 3, exampleInput 5]
   \<and> pointerIdle [exampleInput 0, exampleInput 0] exampleState
   \<and> map particleView (run [exampleInput 0, exampleInput 0] exampleState)
       = map particleView (run [exampleInput 3, exampleInput 5] exampleState)
   \<and> length (run [exampleInput 3, exampleInput 5] exampleState) = 2"
proof -
  have a: "list_all2 sameExceptMode [exampleInput 0, exampleInput 0]
             [exampleInput 3, exampleInput 5]"
    by (simp add: sameExceptMode_def exampleInput_def)
  have b: "pointerIdle [exampleInput 0, exampleInput 0] exampleState"
    by (rule pointerIdle_without_pointer) (simp_all add: exampleState_def examplePointer_def)
  from mode_irrelevant_without_pointer[OF a b] a b show ?thesis by simp
qed


subsection \<open>No pointer influence outside the radius\<close>

lemma abs_le_hypot: "\<bar>a\<bar> \<le> hypot a b"
proof -
  have "a * a \<le> a * a + b * b" by simp
  then have "sqrt (a * a) \<le> sqrt (a * a + b * b)" by (rule real_sqrt_le_mono)
  then show ?thesis by (simp add: hypot_def)
qed

lemma clamp01_nonpos: "v \<le> 0 \<Longrightarrow> clamp01 v = 0"
  by (simp add: clamp01_def)

lemma radial_outside:
  assumes "0 < R" and "R \<le> h + 0.0001"
  shows "clamp01 (1 - (h + 0.0001) / R) = 0"
proof -
  have "1 \<le> (h + 0.0001) / R" using assms by (simp add: le_divide_eq)
  then show ?thesis by (intro clamp01_nonpos) simp
qed

lemma pointerTerms_outside:
  assumes "0 < pointerWarpRadius m"
    and "pointerWarpRadius m \<le> hypot (tX - pointerWorldX e) (tY - pointerWorldY e) + 0.0001"
  shows "pointerTerms e m sd tX tY
         = \<lparr>flowTermX = 0, flowTermY = 0, dragTermX = 0, dragTermY = 0,
            pressureTermX = 0, pressureTermY = 0\<rparr>"
  unfolding pointerTerms_def Let_def radial_outside[OF assms] by simp

lemma modeConfig_radius_pos: "0 < pointerWarpRadiusFactor (modeConfig k)"
  by (simp add: modeConfig_def)

lemma modeParams_radius:
  "pointerWarpRadius (modeParams inp s fl)
   = min (viewportWidth s) (viewportHeight s) * pointerWarpRadiusFactor (modeConfig (modeIndex inp))"
  by (simp add: modeParams_def Let_def)

lemma modeParams_radius_pos:
  "0 < viewportWidth s \<Longrightarrow> 0 < viewportHeight s \<Longrightarrow> 0 < pointerWarpRadius (modeParams inp s fl)"
  unfolding modeParams_radius using modeConfig_radius_pos by simp

lemma ambientTarget_strength: "ambientTarget (e\<lparr>strength := v\<rparr>) fd i = ambientTarget e fd i"
  by (simp add: ambientTarget_def combinedConvergeOf_def Let_def)

lemma integrateParticle_strength:
  "integrateParticle (e\<lparr>strength := v\<rparr>) i tgt s = integrateParticle e i tgt s"
  by (simp add: integrateParticle_def combinedConvergeOf_def Let_def)

text \<open>
  Claim C7, amended. In a tick with a viewport of positive size, a particle whose adjusted
  target (its target after jitter, convergence and ambient motion, the point at which the
  pointer block evaluates the field) is at a distance from the pointer of at least the
  pointer-influence radius of the selected mode receives no pointer contribution: the flow,
  drag and pressure terms added to its adjusted target are all zero, the adjusted target is
  left as it was, and the step of the particle is the step of the same tick with the pointer
  block skipped (pointer strength 0). The distance is the variable \<^verbatim>\<open>dist\<close> of the block;
  the current position of the particle does not enter.
\<close>

theorem no_pointer_influence_outside_radius:
  assumes "0 < viewportWidth s" and "0 < viewportHeight s"
    and "pointerWarpRadius (modeParams inp s (floatingMix e))
           \<le> pointerDistance e (foregroundData s) i"
  shows "pointerTerms e (modeParams inp s (floatingMix e)) (seed (foregroundData s) ! i)
            (fst (ambientTarget e (foregroundData s) i))
            (snd (ambientTarget e (foregroundData s) i))
          = \<lparr>flowTermX = 0, flowTermY = 0, dragTermX = 0, dragTermY = 0,
             pressureTermX = 0, pressureTermY = 0\<rparr>
        \<and> adjustForPointer e (modeParams inp s (floatingMix e)) (seed (foregroundData s) ! i)
            (ambientTarget e (foregroundData s) i)
          = ambientTarget e (foregroundData s) i
        \<and> stepParticle e (modeParams inp s (floatingMix e)) i s
          = stepParticle (e\<lparr>strength := 0\<rparr>) (modeParams inp s (floatingMix e)) i s"
proof -
  let ?m = "modeParams inp s (floatingMix e)"
  let ?tgt = "ambientTarget e (foregroundData s) i"
  let ?sd = "seed (foregroundData s) ! i"
  have r: "0 < pointerWarpRadius ?m" using assms(1,2) by (rule modeParams_radius_pos)
  have far: "pointerWarpRadius ?m
      \<le> hypot (fst ?tgt - pointerWorldX e) (snd ?tgt - pointerWorldY e) + 0.0001"
    using assms(3) unfolding pointerDistance_def .
  note z = pointerTerms_outside[OF r far, of ?sd]
  have adj: "adjustForPointer e ?m ?sd ?tgt = ?tgt"
    unfolding adjustForPointer_def Let_def z by simp
  have skipped: "adjustForPointer (e\<lparr>strength := 0\<rparr>) ?m ?sd ?tgt = ?tgt"
    by (simp add: adjustForPointer_def)
  have "stepParticle e ?m i s = stepParticle (e\<lparr>strength := 0\<rparr>) ?m i s"
    unfolding stepParticle_def ambientTarget_strength integrateParticle_strength adj skipped ..
  with z adj show ?thesis by blast
qed


lemma smoothstep_above:
  assumes "edge0 < edge1" and "edge1 \<le> v"
  shows "smoothstep edge0 edge1 v = 1"
proof -
  have "1 \<le> (v - edge0) / (edge1 - edge0)" using assms by (simp add: le_divide_eq)
  then have "clamp01 ((v - edge0) / (edge1 - edge0)) = 1" by (simp add: clamp01_def)
  then show ?thesis by (simp add: smoothstep_def)
qed

lemma combinedConverge_settled:
  assumes "converge e = 1" and "lockPhase e = 1" and "retargetBlend e = 1"
  shows "combinedConvergeOf e sd = 1"
proof -
  have g: "(x * 0.5 + 0.5) * 0.34 < (1::real)" if "x \<le> 1" for x
    using that by simp
  have d: "(sin (sd * 4.13) * 0.5 + 0.5) * 0.34 < (1::real)"
    by (rule g) (rule sin_le_one)
  have "smoothstep ((sin (sd * 4.13) * 0.5 + 0.5) * 0.34) 1 (converge e + lockPhase e * 0.08) = 1"
    by (rule smoothstep_above[OF d]) (simp add: assms)
  then show ?thesis unfolding combinedConvergeOf_def Let_def by (simp add: assms clamp01_def)
qed

text \<open>Once the word has settled and solidified, the adjusted target of a particle is the
  target point assigned to it.\<close>

lemma ambientTarget_settled:
  assumes "converge e = 1" and "lockPhase e = 1" and "retargetBlend e = 1"
    and "floatingMix e = 0"
  shows "ambientTarget e fd i = (targetX fd ! i, targetY fd ! i)"
  unfolding ambientTarget_def Let_def combinedConverge_settled[OF assms(1-3)] assms(4)
  by simp

theorem no_pointer_influence_outside_radius_witness:
  "0 < viewportWidth exampleFarState \<and> 0 < viewportHeight exampleFarState
   \<and> pointerWarpRadius (modeParams (exampleInput 3) exampleFarState (floatingMix exampleEnv))
       \<le> pointerDistance exampleEnv (foregroundData exampleFarState) 0
   \<and> strength exampleEnv > 0.001
   \<and> stepParticle exampleEnv
        (modeParams (exampleInput 3) exampleFarState (floatingMix exampleEnv)) 0 exampleFarState
      = stepParticle (exampleEnv\<lparr>strength := 0\<rparr>)
        (modeParams (exampleInput 3) exampleFarState (floatingMix exampleEnv)) 0 exampleFarState"
proof -
  have v: "0 < viewportWidth exampleFarState" "0 < viewportHeight exampleFarState"
    by (simp_all add: exampleFarState_def exampleState_def)
  have t: "ambientTarget exampleEnv (foregroundData exampleFarState) 0 = (300, 0)"
    by (subst ambientTarget_settled)
       (simp_all add: exampleEnv_def exampleFarState_def exampleField_def)
  have "\<bar>300 - pointerWorldX exampleEnv\<bar>
        \<le> hypot (300 - pointerWorldX exampleEnv) (0 - pointerWorldY exampleEnv)"
    by (rule abs_le_hypot)
  then have d: "300 \<le> pointerDistance exampleEnv (foregroundData exampleFarState) 0"
    unfolding pointerDistance_def t by (simp add: exampleEnv_def)
  have "pointerWarpRadius (modeParams (exampleInput 3) exampleFarState (floatingMix exampleEnv))
        = 129.6"
    by (simp add: modeParams_radius exampleFarState_def exampleState_def exampleInput_def
        modeConfig_def)
  with d have far: "pointerWarpRadius
        (modeParams (exampleInput 3) exampleFarState (floatingMix exampleEnv))
       \<le> pointerDistance exampleEnv (foregroundData exampleFarState) 0" by simp
  have g: "strength exampleEnv > 0.001" by (simp add: exampleEnv_def)
  from no_pointer_influence_outside_radius[OF v far] v far g show ?thesis by blast
qed

lemma hypot_zero: "hypot a 0 = \<bar>a\<bar>"
  by (simp add: hypot_def)

lemma clamp01_inside: "0 \<le> v \<Longrightarrow> v \<le> 1 \<Longrightarrow> clamp01 v = v"
  by (simp add: clamp01_def)

lemma dragScale_pos:
  assumes "0 \<le> p" and "0 < drag mo"
  shows "0 < dragScale (modeField k mo t sd tX tY dx dy dst p)"
proof -
  show ?thesis unfolding modeField_def Let_def
    using assms by (auto intro!: mult_pos_pos add_pos_nonneg)
qed

text \<open>Inside the radius, a pointer that is present and moving to the right drags the
  target to the right.\<close>

lemma dragTermX_pos:
  assumes v: "0 < pointerWorldVelX e" and st: "0 < strength e"
    and dr: "0 < drag (tickMotion e)"
    and near: "hypot (tX - pointerWorldX e) (tY - pointerWorldY e) + 0.0001 < pointerWarpRadius m"
  shows "0 < dragTermX (pointerTerms e m sd tX tY)"
proof -
  define h where "h = hypot (tX - pointerWorldX e) (tY - pointerWorldY e) + 0.0001"
  define R where "R = pointerWarpRadius m"
  define r where "r = clamp01 (1 - h / R)"
  define p where "p = sin (tickTime e * 0.6 + sd * 8.7) * 0.5 + 0.5"
  define f where "f = modeField (modeIdx m) (tickMotion e) (tickTime e) sd tX tY
      (tX - pointerWorldX e) (tY - pointerWorldY e) h p"
  have h0: "0 < h" unfolding h_def hypot_def
    by (intro add_nonneg_pos) simp_all
  have R0: "0 < R" using near h0 by (simp add: h_def R_def)
  have q: "0 < h / R" "h / R < 1" using h0 R0 near by (simp_all add: h_def R_def)
  then have r: "r = 1 - h / R" unfolding r_def by (intro clamp01_inside) simp_all
  with q have r0: "0 < r" "r < 1" by simp_all
  have fall: "0 < r * r * (3 - 2 * r)" using r0 by (intro mult_pos_pos) simp_all
  have "- 1 \<le> sin (tickTime e * 0.6 + sd * 8.7)" by (rule sin_ge_minus_one)
  then have p0: "0 \<le> p" unfolding p_def by linarith
  have ds: "0 < dragScale f" unfolding f_def by (rule dragScale_pos[OF p0 dr])
  have "dragTermX (pointerTerms e m sd tX tY)
        = pointerWorldVelX e * (dragScale f * (r * r * (3 - 2 * r) * strength e))"
    unfolding pointerTerms_def Let_def f_def p_def r_def h_def R_def by simp
  moreover have "0 < pointerWorldVelX e * (dragScale f * (r * r * (3 - 2 * r) * strength e))"
    by (rule mult_pos_pos[OF v mult_pos_pos[OF ds mult_pos_pos[OF fall st]]])
  ultimately show ?thesis by simp
qed

text \<open>
  Claim C7 as stated, with the distance of the particle itself, fails: the first particle
  of the example is 1000 away from the pointer, far outside the radius 129.6 of mode 3, but
  its target is 10 away from it, and in a settled tick with the pointer present and moving
  the drag term added to its adjusted target is positive.
\<close>

theorem pointer_influence_far_particle_counterexample:
  "pointerWarpRadius (modeParams (exampleInput 3) exampleNearState (floatingMix exampleEnv))
     \<le> particleDistance exampleEnv (foregroundData exampleNearState) 0
   \<and> strength exampleEnv > 0.001
   \<and> 0 < dragTermX
         (pointerTerms exampleEnv
            (modeParams (exampleInput 3) exampleNearState (floatingMix exampleEnv))
            (seed (foregroundData exampleNearState) ! 0)
            (fst (ambientTarget exampleEnv (foregroundData exampleNearState) 0))
            (snd (ambientTarget exampleEnv (foregroundData exampleNearState) 0)))"
proof -
  let ?m = "modeParams (exampleInput 3) exampleNearState (floatingMix exampleEnv)"
  have R: "pointerWarpRadius ?m = 129.6"
    by (simp add: modeParams_radius exampleNearState_def exampleState_def exampleInput_def
        modeConfig_def)
  have t: "ambientTarget exampleEnv (foregroundData exampleNearState) 0 = (10, 0)"
    by (subst ambientTarget_settled)
       (simp_all add: exampleEnv_def exampleNearState_def exampleField_def)
  have pd: "particleDistance exampleEnv (foregroundData exampleNearState) 0 = 1000"
    by (simp add: particleDistance_def exampleEnv_def exampleNearState_def exampleField_def
        hypot_zero)
  have far: "pointerWarpRadius ?m
     \<le> particleDistance exampleEnv (foregroundData exampleNearState) 0"
    unfolding R pd by simp
  have g: "strength exampleEnv > 0.001" by (simp add: exampleEnv_def)
  have near: "hypot (10 - pointerWorldX exampleEnv) (0 - pointerWorldY exampleEnv) + 0.0001
      < pointerWarpRadius ?m"
    unfolding R by (simp add: exampleEnv_def hypot_zero)
  have "0 < dragTermX (pointerTerms exampleEnv ?m
            (seed (foregroundData exampleNearState) ! 0) 10 0)"
    by (rule dragTermX_pos[OF _ _ _ near]) (simp_all add: exampleEnv_def exampleMotion_def)
  with far g show ?thesis unfolding t by simp
qed

end
